theory Spec2Isabelle
  imports Complex_Main
begin

section \<open>Python values\<close>

text \<open>
  The program is Python: \<^verbatim>\<open>analysis.py\<close> computes financial and marketing ratios from
  numeric arguments, builds nested dictionaries of rounded values, formats three prompts and
  hands each to \<^verbatim>\<open>call_llm\<close>.

  An exception is a value: a computation that may raise returns \<open>Inl\<close> of the error or
  \<open>Inr\<close> of its result. The arithmetic of the program raises \<^verbatim>\<open>ZeroDivisionError\<close> and
  \<^verbatim>\<open>OverflowError\<close>; the collaborator raises its own error.
\<close>

datatype py_error = ZeroDivisionError | OverflowError | GenerationError string

text \<open>Sequencing of computations that may raise: the first exception aborts the rest.\<close>

definition bindE :: "'e + 'a \<Rightarrow> ('a \<Rightarrow> 'e + 'b) \<Rightarrow> 'e + 'b" where
  "bindE m f = (case m of Inl e \<Rightarrow> Inl e | Inr x \<Rightarrow> f x)"

subsection \<open>Rounding to binary64\<close>

text \<open>
  The nearest integer, ties to the even neighbour.
\<close>

definition round_half_even :: "real \<Rightarrow> int" where
  "round_half_even x =
     (let f = \<lfloor>x\<rfloor>; d = x - of_int f
      in if d < 1 / 2 then f else if 1 / 2 < d then f + 1 else if even f then f else f + 1)"

text \<open>
  A Python \<^verbatim>\<open>float\<close> is an IEEE 754 binary64 number: 53 significant bits, the smallest
  normal exponent - 1022. The finite numbers of the format near \<open>x\<close> are the multiples of
  \<open>2 powi ulp_exp x\<close>; below \<open>2 powi (- 1022)\<close> the spacing stays \<open>2 powi (- 1074)\<close>
  (subnormal numbers). \<open>round64 x\<close> is the multiple nearest to \<open>x\<close>, ties to the even one:
  the result of rounding \<open>x\<close> to the format when the exponent is unbounded above. A result
  of magnitude \<open>2 ^ 1024\<close> or more is an overflow.
\<close>

definition ulp_exp :: "real \<Rightarrow> int" where
  "ulp_exp x = max \<lfloor>log 2 \<bar>x\<bar>\<rfloor> (- 1022) - 52"

definition round64 :: "real \<Rightarrow> real" where
  "round64 x = of_int (round_half_even (x / 2 powi ulp_exp x)) * 2 powi ulp_exp x"

subsection \<open>Numbers\<close>

text \<open>
  A Python number is an \<^verbatim>\<open>int\<close> (unbounded) or a \<^verbatim>\<open>float\<close>. The embedding keeps the two
  apart, because \<^verbatim>\<open>/\<close> always yields a float, \<^verbatim>\<open>round\<close> keeps the type of its argument
  and \<^verbatim>\<open>json.dumps\<close> prints them differently. A float is a finite number \<open>PyFloat x\<close>
  (\<open>x\<close> its value; \<open>PyFloat 0\<close> is \<^verbatim>\<open>0.0\<close>), the negative zero \<^verbatim>\<open>-0.0\<close>, an infinity
  (\<open>PyInf True\<close> is \<^verbatim>\<open>-inf\<close>) or \<^verbatim>\<open>nan\<close>. Every operation below rounds its exact
  result with \<open>round64\<close>, so it returns \<open>PyFloat x\<close> only for \<open>x\<close> a number of the format.
\<close>

datatype pynum = PyInt int | PyFloat real | PyNegZero | PyInf bool | PyNaN

text \<open>The value of a finite number (0 for an infinity and for nan, which have none).\<close>

fun val :: "pynum \<Rightarrow> real" where
  "val (PyInt n) = of_int n"
| "val (PyFloat x) = x"
| "val PyNegZero = 0"
| "val (PyInf neg) = 0"
| "val PyNaN = 0"

fun is_int :: "pynum \<Rightarrow> bool" where
  "is_int (PyInt n) = True"
| "is_int (PyFloat x) = False"
| "is_int PyNegZero = False"
| "is_int (PyInf neg) = False"
| "is_int PyNaN = False"

fun int_of :: "pynum \<Rightarrow> int" where
  "int_of (PyInt n) = n"
| "int_of (PyFloat x) = 0"
| "int_of PyNegZero = 0"
| "int_of (PyInf neg) = 0"
| "int_of PyNaN = 0"

fun is_nan :: "pynum \<Rightarrow> bool" where
  "is_nan (PyInt n) = False"
| "is_nan (PyFloat x) = False"
| "is_nan PyNegZero = False"
| "is_nan (PyInf neg) = False"
| "is_nan PyNaN = True"

fun is_inf :: "pynum \<Rightarrow> bool" where
  "is_inf (PyInt n) = False"
| "is_inf (PyFloat x) = False"
| "is_inf PyNegZero = False"
| "is_inf (PyInf neg) = True"
| "is_inf PyNaN = False"

text \<open>A finite number: an int, or a float other than an infinity and nan.\<close>

definition is_finite :: "pynum \<Rightarrow> bool" where
  "is_finite x = (\<not> is_nan x \<and> \<not> is_inf x)"

fun is_zero :: "pynum \<Rightarrow> bool" where
  "is_zero (PyInt n) = (n = 0)"
| "is_zero (PyFloat x) = (x = 0)"
| "is_zero PyNegZero = True"
| "is_zero (PyInf neg) = False"
| "is_zero PyNaN = False"

text \<open>The sign bit.\<close>

fun sign_bit :: "pynum \<Rightarrow> bool" where
  "sign_bit (PyInt n) = (n < 0)"
| "sign_bit (PyFloat x) = (x < 0)"
| "sign_bit PyNegZero = True"
| "sign_bit (PyInf neg) = neg"
| "sign_bit PyNaN = False"

definition signed_zero :: "bool \<Rightarrow> pynum" where
  "signed_zero neg = (if neg then PyNegZero else PyFloat 0)"

text \<open>
  The float for the exact result \<open>r\<close> of an operation: \<open>r\<close> rounded to the format, an
  infinity on overflow, and a zero with the sign \<open>neg\<close> when the result is zero or rounds
  to zero (underflow).
\<close>

definition float_of_real :: "bool \<Rightarrow> real \<Rightarrow> pynum" where
  "float_of_real neg r =
     (let y = round64 r
      in if 2 ^ 1024 \<le> \<bar>y\<bar> then PyInf (y < 0)
         else if y = 0 then signed_zero neg
         else PyFloat y)"

text \<open>
  \<^verbatim>\<open>float(n)\<close> as the arithmetic applies it to an int operand that meets a float: the
  nearest float, or \<^verbatim>\<open>OverflowError\<close> (int too large to convert to float).
\<close>

definition to_float :: "pynum \<Rightarrow> py_error + pynum" where
  "to_float a =
     (if is_int a
      then (if 2 ^ 1024 \<le> \<bar>round64 (of_int (int_of a))\<bar> then Inl OverflowError
            else Inr (PyFloat (round64 (of_int (int_of a)))))
      else Inr a)"

text \<open>
  IEEE 754 addition, negation, multiplication and division of floats, in the rounding mode
  to nearest, ties to even. \<open>fdiv\<close> is applied to a divisor other than zero only.
\<close>

definition fadd :: "pynum \<Rightarrow> pynum \<Rightarrow> pynum" where
  "fadd a b =
     (if is_nan a \<or> is_nan b then PyNaN
      else if is_inf a then (if is_inf b \<and> sign_bit a \<noteq> sign_bit b then PyNaN else a)
      else if is_inf b then b
      else if val a + val b = 0 then signed_zero (sign_bit a \<and> sign_bit b)
      else float_of_real (val a + val b < 0) (val a + val b))"

fun fneg :: "pynum \<Rightarrow> pynum" where
  "fneg (PyInt n) = PyInt (- n)"
| "fneg (PyFloat x) = (if x = 0 then PyNegZero else PyFloat (- x))"
| "fneg PyNegZero = PyFloat 0"
| "fneg (PyInf neg) = PyInf (\<not> neg)"
| "fneg PyNaN = PyNaN"

definition fsub :: "pynum \<Rightarrow> pynum \<Rightarrow> pynum" where
  "fsub a b = fadd a (fneg b)"

definition fmul :: "pynum \<Rightarrow> pynum \<Rightarrow> pynum" where
  "fmul a b =
     (if is_nan a \<or> is_nan b then PyNaN
      else if is_inf a \<or> is_inf b
        then (if is_zero a \<or> is_zero b then PyNaN else PyInf (sign_bit a \<noteq> sign_bit b))
      else float_of_real (sign_bit a \<noteq> sign_bit b) (val a * val b))"

definition fdiv :: "pynum \<Rightarrow> pynum \<Rightarrow> pynum" where
  "fdiv a b =
     (if is_nan a \<or> is_nan b then PyNaN
      else if is_inf a then (if is_inf b then PyNaN else PyInf (sign_bit a \<noteq> sign_bit b))
      else if is_inf b then signed_zero (sign_bit a \<noteq> sign_bit b)
      else float_of_real (sign_bit a \<noteq> sign_bit b) (val a / val b))"

text \<open>
  \<^verbatim>\<open>a + b\<close>, \<^verbatim>\<open>a - b\<close>, \<^verbatim>\<open>a * b\<close>: exact on two ints; otherwise both operands are
  converted to float (which may raise \<^verbatim>\<open>OverflowError\<close>) and the float operation applies.
\<close>

definition py_add :: "pynum \<Rightarrow> pynum \<Rightarrow> py_error + pynum" where
  "py_add a b =
     (if is_int a \<and> is_int b then Inr (PyInt (int_of a + int_of b))
      else bindE (to_float a) (\<lambda>x. bindE (to_float b) (\<lambda>y. Inr (fadd x y))))"

definition py_sub :: "pynum \<Rightarrow> pynum \<Rightarrow> py_error + pynum" where
  "py_sub a b =
     (if is_int a \<and> is_int b then Inr (PyInt (int_of a - int_of b))
      else bindE (to_float a) (\<lambda>x. bindE (to_float b) (\<lambda>y. Inr (fsub x y))))"

definition py_mul :: "pynum \<Rightarrow> pynum \<Rightarrow> py_error + pynum" where
  "py_mul a b =
     (if is_int a \<and> is_int b then Inr (PyInt (int_of a * int_of b))
      else bindE (to_float a) (\<lambda>x. bindE (to_float b) (\<lambda>y. Inr (fmul x y))))"

text \<open>
  \<^verbatim>\<open>a / b\<close> on two ints: \<^verbatim>\<open>ZeroDivisionError\<close> when \<^verbatim>\<open>b\<close> is 0; otherwise the float
  nearest to the exact quotient, \<^verbatim>\<open>OverflowError\<close> when that is too large for a float, and
  a zero with the sign of the quotient when it is zero or rounds to zero.
\<close>

definition int_truediv :: "int \<Rightarrow> int \<Rightarrow> py_error + pynum" where
  "int_truediv a b =
     (if b = 0 then Inl ZeroDivisionError
      else (let y = round64 (of_int a / of_int b)
            in if 2 ^ 1024 \<le> \<bar>y\<bar> then Inl OverflowError
               else if y = 0 then Inr (signed_zero ((a < 0) \<noteq> (b < 0)))
               else Inr (PyFloat y)))"

text \<open>
  \<^verbatim>\<open>a / b\<close>: true division, always a float. With a float operand both are converted to
  float first; then a divisor \<^verbatim>\<open>0.0\<close> or \<^verbatim>\<open>-0.0\<close> raises \<^verbatim>\<open>ZeroDivisionError\<close>, whatever the
  dividend is.
\<close>

definition py_truediv :: "pynum \<Rightarrow> pynum \<Rightarrow> py_error + pynum" where
  "py_truediv a b =
     (if is_int a \<and> is_int b then int_truediv (int_of a) (int_of b)
      else bindE (to_float a) (\<lambda>x. bindE (to_float b) (\<lambda>y.
             if is_zero y then Inl ZeroDivisionError else Inr (fdiv x y))))"

text \<open>
  Truthiness of a number (\<^verbatim>\<open>if x\<close>): false for the int 0 and the floats \<^verbatim>\<open>0.0\<close> and
  \<^verbatim>\<open>-0.0\<close> only. The comparisons \<^verbatim>\<open>a < b\<close>, \<^verbatim>\<open>a <= b\<close>, \<^verbatim>\<open>a > b\<close>, \<^verbatim>\<open>a >= b\<close>
  compare an int and a float by their exact values; a comparison with nan is false.
\<close>

definition py_bool :: "pynum \<Rightarrow> bool" where
  "py_bool a = (\<not> is_zero a)"

definition py_lt :: "pynum \<Rightarrow> pynum \<Rightarrow> bool" where
  "py_lt a b =
     (\<not> is_nan a \<and> \<not> is_nan b \<and>
      (if is_inf a then sign_bit a \<and> \<not> (is_inf b \<and> sign_bit b)
       else if is_inf b then \<not> sign_bit b
       else val a < val b))"

definition py_le :: "pynum \<Rightarrow> pynum \<Rightarrow> bool" where
  "py_le a b =
     (\<not> is_nan a \<and> \<not> is_nan b \<and>
      (if is_inf a then sign_bit a \<or> (is_inf b \<and> \<not> sign_bit b)
       else if is_inf b then \<not> sign_bit b
       else val a \<le> val b))"

definition py_gt :: "pynum \<Rightarrow> pynum \<Rightarrow> bool" where
  "py_gt a b = py_lt b a"

definition py_ge :: "pynum \<Rightarrow> pynum \<Rightarrow> bool" where
  "py_ge a b = py_le b a"

text \<open>\<^verbatim>\<open>a == b\<close> on numbers: equal values; nan equals nothing.\<close>

definition py_eq :: "pynum \<Rightarrow> pynum \<Rightarrow> bool" where
  "py_eq a b = (py_le a b \<and> py_le b a)"

text \<open>
  \<^verbatim>\<open>round(x, d)\<close> with \<^verbatim>\<open>d >= 0\<close>: an int, an infinity and nan are returned unchanged. A
  finite float is rounded correctly: its exact value is rounded to \<^verbatim>\<open>d\<close> decimal places,
  ties to the even neighbour, and the result is the float nearest to that decimal number;
  a negative number that rounds to zero gives \<^verbatim>\<open>-0.0\<close>.
\<close>

fun py_round :: "pynum \<Rightarrow> nat \<Rightarrow> pynum" where
  "py_round (PyInt n) d = PyInt n"
| "py_round (PyFloat x) d =
     float_of_real (x < 0) (of_int (round_half_even (x * 10 ^ d)) / 10 ^ d)"
| "py_round PyNegZero d = PyNegZero"
| "py_round (PyInf neg) d = PyInf neg"
| "py_round PyNaN d = PyNaN"

text \<open>Decimal digits of a natural number and of an integer (\<^verbatim>\<open>str(n)\<close>).\<close>

definition digit_char :: "nat \<Rightarrow> char" where
  "digit_char d = ''0123456789'' ! d"

fun show_nat :: "nat \<Rightarrow> string" where
  "show_nat n =
     (if n < 10 then [digit_char n] else show_nat (n div 10) @ [digit_char (n mod 10)])"

declare show_nat.simps [simp del]

definition show_int :: "int \<Rightarrow> string" where
  "show_int n = (if n < 0 then ''-'' @ show_nat (nat (- n)) else show_nat (nat n))"

text \<open>
  \<^verbatim>\<open>f"{x:.1%}"\<close>: an int is converted to float; the float is multiplied by 100 (a float
  multiplication) and the product is written in fixed-point notation with one digit after
  the point, its exact value rounded ties to even, followed by a percent sign. A negative
  product keeps its sign even when it rounds to zero; an infinity and nan are written
  \<^verbatim>\<open>inf%\<close>, \<^verbatim>\<open>-inf%\<close> and \<^verbatim>\<open>nan%\<close>.
\<close>

definition format_pct1 :: "pynum \<Rightarrow> py_error + string" where
  "format_pct1 x =
     bindE (to_float x) (\<lambda>f.
       let p = fmul f (PyFloat 100)
       in Inr (if is_nan p then ''nan%''
               else if is_inf p then (if sign_bit p then ''-inf%'' else ''inf%'')
               else (let m = nat \<bar>round_half_even (val p * 10)\<bar>
                     in (if sign_bit p then ''-'' else '''') @
                        show_nat (m div 10) @ ''.'' @ [digit_char (m mod 10)] @ ''%'')))"


section \<open>Dictionaries and their serialisation\<close>

text \<open>
  The reports are nested \<^verbatim>\<open>dict\<close> literals with string keys whose leaves are numbers and
  strings. A Python dict keeps its keys in insertion order, and \<^verbatim>\<open>json.dumps\<close> writes them
  in that order, so a dict is an association list here.
\<close>

datatype pyval = Num pynum | Str string | Dict "(string \<times> pyval) list"

fun dict_get :: "pyval \<Rightarrow> string \<Rightarrow> pyval option" where
  "dict_get (Dict kvs) k = map_of kvs k"
| "dict_get _ k = None"



fun dict_keys :: "pyval \<Rightarrow> string list" where
  "dict_keys (Dict kvs) = map fst kvs"
| "dict_keys _ = []"

text \<open>The items of a dict, the leaves of a dict of dicts, and the keys of both levels.\<close>

fun dict_items :: "pyval \<Rightarrow> (string \<times> pyval) list" where
  "dict_items (Dict kvs) = kvs"
| "dict_items _ = []"

definition leaves :: "pyval \<Rightarrow> pyval list" where
  "leaves r = concat (map (\<lambda>(k, s). map snd (dict_items s)) (dict_items r))"

text \<open>A leaf that is a finite number: not a string, an infinity or nan.\<close>

definition finite_leaf :: "pyval \<Rightarrow> bool" where
  "finite_leaf v = (case v of Num x \<Rightarrow> is_finite x | _ \<Rightarrow> False)"

definition key_layout :: "pyval \<Rightarrow> (string \<times> string list) list" where
  "key_layout r = map (\<lambda>(k, s). (k, dict_keys s)) (dict_items r)"

text \<open>
  \<^verbatim>\<open>a == b\<close> on reports (dicts of dicts of numbers and strings): the same keys, in any
  order, and under each key equal values; two numbers are equal when their values are,
  whatever their types (\<^verbatim>\<open>0 == 0.0 == -0.0\<close>).
\<close>

definition leaf_equal :: "pyval \<Rightarrow> pyval \<Rightarrow> bool" where
  "leaf_equal u v =
     (case (u, v) of
        (Num a, Num b) \<Rightarrow> py_eq a b
      | (Str s, Str t) \<Rightarrow> s = t
      | _ \<Rightarrow> False)"

definition section_equal :: "pyval \<Rightarrow> pyval \<Rightarrow> bool" where
  "section_equal x y =
     (set (dict_keys x) = set (dict_keys y) \<and>
      list_all (\<lambda>l. case (dict_get x l, dict_get y l) of
                       (Some u, Some v) \<Rightarrow> leaf_equal u v
                     | _ \<Rightarrow> False) (dict_keys x))"

definition py_equal :: "pyval \<Rightarrow> pyval \<Rightarrow> bool" where
  "py_equal a b =
     (set (dict_keys a) = set (dict_keys b) \<and>
      list_all (\<lambda>k. case (dict_get a k, dict_get b k) of
                       (Some x, Some y) \<Rightarrow> section_equal x y
                     | _ \<Rightarrow> False) (dict_keys a))"

text \<open>
  Two numbers that \<^verbatim>\<open>json.dumps\<close> cannot tell apart: of the same type, with the same
  value and, for a zero, the same sign.
\<close>

definition same_number :: "pynum \<Rightarrow> pynum \<Rightarrow> bool" where
  "same_number a b =
     (is_int a = is_int b \<and> sign_bit a = sign_bit b \<and> is_nan a = is_nan b \<and>
      (is_nan a \<or> py_eq a b))"

definition same_leaf :: "pyval \<Rightarrow> pyval \<Rightarrow> bool" where
  "same_leaf u v =
     (case (u, v) of
        (Num a, Num b) \<Rightarrow> same_number a b
      | (Str s, Str t) \<Rightarrow> s = t
      | _ \<Rightarrow> False)"

definition same_section :: "pyval \<Rightarrow> pyval \<Rightarrow> bool" where
  "same_section x y =
     (set (dict_keys x) = set (dict_keys y) \<and>
      list_all (\<lambda>l. case (dict_get x l, dict_get y l) of
                       (Some u, Some v) \<Rightarrow> same_leaf u v
                     | _ \<Rightarrow> False) (dict_keys x))"

definition same_items :: "pyval \<Rightarrow> pyval \<Rightarrow> bool" where
  "same_items a b =
     (set (dict_keys a) = set (dict_keys b) \<and>
      list_all (\<lambda>k. case (dict_get a k, dict_get b k) of
                       (Some x, Some y) \<Rightarrow> same_section x y
                     | _ \<Rightarrow> False) (dict_keys a))"

text \<open>
  \<^verbatim>\<open>json.dumps(results, indent=2)\<close>. Strings are quoted with the escapes of the \<^verbatim>\<open>json\<close>
  module for ASCII text; ints are written in decimal; \<^verbatim>\<open>-0.0\<close>, the infinities and nan are
  written \<^verbatim>\<open>-0.0\<close>, \<^verbatim>\<open>Infinity\<close>, \<^verbatim>\<open>-Infinity\<close> and \<^verbatim>\<open>NaN\<close>; the text of any other
  float is Python's \<^verbatim>\<open>float.__repr__\<close> of its value, which is taken as the parameter \<open>fr\<close>.
\<close>

definition hex_char :: "nat \<Rightarrow> char" where
  "hex_char d = ''0123456789abcdef'' ! d"

definition json_escape_char :: "char \<Rightarrow> string" where
  "json_escape_char c =
     (if c = CHR 0x22 then [CHR 0x5C, CHR 0x22]
      else if c = CHR 0x5C then [CHR 0x5C, CHR 0x5C]
      else if c = CHR 0x0A then [CHR 0x5C, CHR ''n'']
      else if c = CHR 0x0D then [CHR 0x5C, CHR ''r'']
      else if c = CHR 0x09 then [CHR 0x5C, CHR ''t'']
      else if c = CHR 0x08 then [CHR 0x5C, CHR ''b'']
      else if c = CHR 0x0C then [CHR 0x5C, CHR ''f'']
      else if (of_char c :: nat) < 32
        then [CHR 0x5C, CHR ''u'', CHR ''0'', CHR ''0'',
              hex_char ((of_char c :: nat) div 16), hex_char ((of_char c :: nat) mod 16)]
      else [c])"

definition json_string :: "string \<Rightarrow> string" where
  "json_string s = [CHR 0x22] @ concat (map json_escape_char s) @ [CHR 0x22]"

definition json_number :: "(real \<Rightarrow> string) \<Rightarrow> pynum \<Rightarrow> string" where
  "json_number fr x =
     (case x of
        PyInt n \<Rightarrow> show_int n
      | PyFloat r \<Rightarrow> fr r
      | PyNegZero \<Rightarrow> ''-0.0''
      | PyInf neg \<Rightarrow> (if neg then ''-Infinity'' else ''Infinity'')
      | PyNaN \<Rightarrow> ''NaN'')"

definition indent_of :: "nat \<Rightarrow> string" where
  "indent_of lvl = replicate (2 * lvl) CHR '' ''"

fun join :: "string \<Rightarrow> string list \<Rightarrow> string" where
  "join sep [] = []"
| "join sep [x] = x"
| "join sep (x # y # ys) = x @ sep @ join sep (y # ys)"

fun json_dumps_at :: "(real \<Rightarrow> string) \<Rightarrow> nat \<Rightarrow> pyval \<Rightarrow> string" where
  "json_dumps_at fr lvl (Num x) = json_number fr x"
| "json_dumps_at fr lvl (Str s) = json_string s"
| "json_dumps_at fr lvl (Dict []) = ''{}''"
| "json_dumps_at fr lvl (Dict kvs) =
     ''{'' @ ''\<newline>'' @ indent_of (Suc lvl) @
     join ('','' @ ''\<newline>'' @ indent_of (Suc lvl))
       (map (\<lambda>(k, v). json_string k @ '': '' @ json_dumps_at fr (Suc lvl) v) kvs) @
     ''\<newline>'' @ indent_of lvl @ ''}''"

definition json_dumps :: "(real \<Rightarrow> string) \<Rightarrow> pyval \<Rightarrow> string" where
  "json_dumps fr v = json_dumps_at fr 0 v"


section \<open>The text-generation collaborator\<close>

text \<open>
  \<^verbatim>\<open>call_llm(prompt)\<close> sends the prompt to the configured provider and returns its text, or
  raises. The provider is outside the program: it is a parameter \<open>gen\<close> with a state of its
  own. The world also records every prompt handed to \<^verbatim>\<open>call_llm\<close>, in order.
\<close>

record 'w world =
  calls :: "string list"
  provider :: 'w

type_synonym 'w generate_text = "string \<Rightarrow> 'w \<Rightarrow> (py_error + string) \<times> 'w"

definition call_llm :: "'w generate_text \<Rightarrow> string \<Rightarrow> 'w world \<Rightarrow> (py_error + string) \<times> 'w world" where
  "call_llm gen prompt w =
     (case gen prompt (provider w) of
        (r, p') \<Rightarrow> (r, \<lparr>calls = calls w @ [prompt], provider = p'\<rparr>))"

section \<open>Prompts\<close>

definition template_financial :: string where
  \<open>template_financial =
     ''You are a Senior Strategic Business Consultant and Fractional CFO. I am going to provide you with a JSON object containing the financial ratios of my business.\<newline>'' @
     ''\<newline>'' @
     ''Your Task:\<newline>'' @
     ''\<newline>'' @
     ''Executive Summary: Give me a 3-sentence 'vibe check' on the company's health.\<newline>'' @
     ''\<newline>'' @
     ''The Red Flags: Identify any ratios that suggest liquidity, solvency, or efficiency risks.\<newline>'' @
     ''\<newline>'' @
     ''The Green Flags: What are we doing exceptionally well?\<newline>'' @
     ''\<newline>'' @
     ''Operational Advice: Based on the 'Operational' and 'DuPont' sections, give me 3 actionable steps to improve profitability or cash flow.\<newline>'' @
     ''\<newline>'' @
     ''Benchmark Comparison: Compare these to standard healthy industry benchmarks (assume a general mid-market manufacturing/retail context).\<newline>'' @
     ''\<newline>'' @
     ''The Data: ''\<close>

definition template_marketing :: string where
  \<open>template_marketing =
     ''You are a data-driven Chief Marketing Officer (CMO) with a background in Growth Engineering and Unit Economics.\<newline>'' @
     ''\<newline>'' @
     ''Task: Analyze the provided Marketing & Customer Acquisition data and provide a high-level strategic evaluation.\<newline>'' @
     ''\<newline>'' @
     ''Please structure your response as follows:\<newline>'' @
     ''\<newline>'' @
     ''The Efficiency Score: On a scale of 1-10, how healthy is this growth engine? (Base this heavily on the LTV:CAC and Payback Period).\<newline>'' @
     ''\<newline>'' @
     ''Growth vs. Burn: Are we spending too much to acquire customers, or are we being too conservative?\<newline>'' @
     ''\<newline>'' @
     ''The Leaking Bucket Check: Analyze the Churn and Retention metrics. Is our growth sustainable, or are we losing customers too fast to keep the "bucket" full?\<newline>'' @
     ''\<newline>'' @
     ''CMO Recommendations: Provide 3 specific strategies to either:\<newline>'' @
     ''- Optimize CAC (if the payback period is too long).\<newline>'' @
     ''- Increase LTV (if the margin or retention is low).\<newline>'' @
     ''- Scale Spend (if the LTV:CAC is >3 and we should be "pouring gas on the fire").\<newline>'' @
     ''\<newline>'' @
     ''Financial Alignment: Briefly explain how these marketing metrics will impact the company's "Bottom Line" Net Income over the next 6 months.\<newline>'' @
     ''\<newline>'' @
     ''The Data for Analysis: ''\<close>

definition template_ceo_head :: string where
  \<open>template_ceo_head =
     ''You are the CEO of a high-growth company. You are presiding over a board meeting with your CFO and CMO.\<newline>'' @
     ''\<newline>'' @
     ''The Objective: Synthesize the Financial Report and the Marketing Report to determine the company's "True North." You need to identify if the growth strategy is sustainable or if the company is at risk.\<newline>'' @
     ''\<newline>'' @
     ''Analysis Requirements:\<newline>'' @
     ''\<newline>'' @
     ''The Alignment Audit: Is the Marketing department spending cash at a rate that the Balance Sheet can support? Point out any friction between Marketing Spend and Net Income/Cash Reserves.\<newline>'' @
     ''\<newline>'' @
     ''Unit Economics vs. Overhead: The CMO reports on LTV/CAC (unit level), but the CFO reports on OpEx (company level). Are we "profitable on a unit basis" but "losing money on a GAAP basis"? Explain what this means for our runway.\<newline>'' @
     ''\<newline>'' @
     ''The "Growth-Profitability" Seesaw: Should we:\<newline>'' @
     ''- Aggressive Growth: Pour more cash into marketing because the LTV/CAC and ROE justify it?\<newline>'' @
     ''- Operational Efficiency: Freeze marketing spend and focus on fixing the "clogged" inventory/assets identified by the CFO?\<newline>'' @
     ''- Capital Raise: Is our current trajectory going to require a debt or equity raise in the next 6-12 months?\<newline>'' @
     ''\<newline>'' @
     ''CEO Directive: Give 3 high-level directives. These should be "Orders" to your CFO and CMO to get them in sync.\<newline>'' @
     ''\<newline>'' @
     ''CFO DATA (Financials): ''\<close>

definition template_ceo_mid :: string where
  "template_ceo_mid =
     ''\<newline>'' @
     ''\<newline>'' @
     ''CMO DATA (Marketing): ''"

text \<open>The three f-strings, and the functions that build each and pass it to \<^verbatim>\<open>call_llm\<close>.\<close>

definition prompt_financial :: "(real \<Rightarrow> string) \<Rightarrow> pyval \<Rightarrow> string" where
  "prompt_financial fr results = template_financial @ json_dumps fr results"

definition prompt_marketing :: "(real \<Rightarrow> string) \<Rightarrow> pyval \<Rightarrow> string" where
  "prompt_marketing fr results = template_marketing @ json_dumps fr results"

definition prompt_ceo :: "string \<Rightarrow> string \<Rightarrow> string" where
  "prompt_ceo financial_report marketing_report =
     template_ceo_head @ financial_report @ template_ceo_mid @ marketing_report"

definition construct_prompt_financial ::
  "(real \<Rightarrow> string) \<Rightarrow> 'w generate_text \<Rightarrow> pyval \<Rightarrow> 'w world \<Rightarrow> (py_error + string) \<times> 'w world" where
  "construct_prompt_financial fr gen results w = call_llm gen (prompt_financial fr results) w"

definition construct_prompt_marketing ::
  "(real \<Rightarrow> string) \<Rightarrow> 'w generate_text \<Rightarrow> pyval \<Rightarrow> 'w world \<Rightarrow> (py_error + string) \<times> 'w world" where
  "construct_prompt_marketing fr gen results w = call_llm gen (prompt_marketing fr results) w"

definition construct_prompt_ceo ::
  "'w generate_text \<Rightarrow> string \<Rightarrow> string \<Rightarrow> 'w world \<Rightarrow> (py_error + string) \<times> 'w world" where
  "construct_prompt_ceo gen financial_report marketing_report w =
     call_llm gen (prompt_ceo financial_report marketing_report) w"

section \<open>Arguments\<close>

text \<open>
  The named arguments of \<^verbatim>\<open>analyze_business\<close>. \<^verbatim>\<open>financial_analysis\<close> and
  \<^verbatim>\<open>analyze_marketing_performance\<close> each take a part of them (\<^verbatim>\<open>Revenue\<close> goes to both);
  a function below reads only the fields that are parameters of the Python function.
  \<^verbatim>\<open>stock_price\<close> and \<^verbatim>\<open>shares_outstanding\<close> default to the ints 0 and 1.
\<close>

record inputs =
  Revenue :: pynum
  marketing_spend :: pynum
  new_customers_acquired :: pynum
  total_customers_start_period :: pynum
  total_customers_end_period :: pynum
  avg_revenue_per_user_monthly :: pynum
  gross_margin_pct :: pynum
  expansion_revenue :: pynum
  COGS :: pynum
  Gross_Profit :: pynum
  Sales_and_Marketing :: pynum
  Research_and_Development :: pynum
  General_and_Administrative :: pynum
  EBITDA :: pynum
  Depreciation_and_Amortization :: pynum
  EBIT :: pynum
  Interest_Expense :: pynum
  Net_Income :: pynum
  cash_equivalents :: pynum
  accounts_receivable :: pynum
  inventory :: pynum
  fixed_assets_ppe :: pynum
  intangible_assets :: pynum
  accounts_payable :: pynum
  accrued_expenses :: pynum
  long_term_debt :: pynum
  shareholders_equity :: pynum
  stock_price :: pynum
  shares_outstanding :: pynum


section \<open>Marketing metrics\<close>

text \<open>
  Each local variable of \<^verbatim>\<open>analyze_marketing_performance\<close> is a function of the arguments,
  under the name it has in the source: the value of the expression assigned to it, or the
  exception that the expression, or a variable it reads, raises. A conditional expression
  \<^verbatim>\<open>a / b if c else 0\<close> evaluates \<^verbatim>\<open>c\<close> first, divides only when \<^verbatim>\<open>c\<close> holds and is the
  int 0 otherwise.
\<close>

definition cac :: "inputs \<Rightarrow> py_error + pynum" where
  "cac i =
     (if py_gt (new_customers_acquired i) (PyInt 0)
      then py_truediv (marketing_spend i) (new_customers_acquired i)
      else Inr (PyInt 0))"

definition lost_customers :: "inputs \<Rightarrow> py_error + pynum" where
  "lost_customers i =
     bindE (py_add (total_customers_start_period i) (new_customers_acquired i)) (\<lambda>s.
       py_sub s (total_customers_end_period i))"

definition churn_rate :: "inputs \<Rightarrow> py_error + pynum" where
  "churn_rate i =
     bindE (lost_customers i) (\<lambda>lost_customers'.
       if py_gt (total_customers_start_period i) (PyInt 0)
       then py_truediv lost_customers' (total_customers_start_period i)
       else Inr (PyInt 0))"

definition retention_rate :: "inputs \<Rightarrow> py_error + pynum" where
  "retention_rate i = bindE (churn_rate i) (\<lambda>churn_rate'. py_sub (PyInt 1) churn_rate')"

definition starting_rev :: "inputs \<Rightarrow> py_error + pynum" where
  "starting_rev i = py_mul (total_customers_start_period i) (avg_revenue_per_user_monthly i)"

definition nrr :: "inputs \<Rightarrow> py_error + pynum" where
  "nrr i =
     bindE (lost_customers i) (\<lambda>lost_customers'.
     bindE (starting_rev i) (\<lambda>starting_rev'.
       if py_gt starting_rev' (PyInt 0)
       then bindE (py_add starting_rev' (expansion_revenue i)) (\<lambda>s.
            bindE (py_mul lost_customers' (avg_revenue_per_user_monthly i)) (\<lambda>l.
            bindE (py_sub s l) (\<lambda>n. py_truediv n starting_rev')))
       else Inr (PyInt 0)))"

definition ltv :: "inputs \<Rightarrow> py_error + pynum" where
  "ltv i =
     bindE (churn_rate i) (\<lambda>churn_rate'.
       if py_gt churn_rate' (PyInt 0)
       then bindE (py_mul (avg_revenue_per_user_monthly i) (gross_margin_pct i)) (\<lambda>m.
              py_truediv m churn_rate')
       else Inr (PyInt 0))"

definition ltv_cac_ratio :: "inputs \<Rightarrow> py_error + pynum" where
  "ltv_cac_ratio i =
     bindE (cac i) (\<lambda>cac'. bindE (ltv i) (\<lambda>ltv'.
       if py_gt cac' (PyInt 0) then py_truediv ltv' cac' else Inr (PyInt 0)))"

definition payback_period :: "inputs \<Rightarrow> py_error + pynum" where
  "payback_period i =
     bindE (cac i) (\<lambda>cac'.
       if py_gt (avg_revenue_per_user_monthly i) (PyInt 0) \<and> py_gt (gross_margin_pct i) (PyInt 0)
       then bindE (py_mul (avg_revenue_per_user_monthly i) (gross_margin_pct i)) (\<lambda>m.
              py_truediv cac' m)
       else Inr (PyInt 0))"

definition marketing_efficiency_ratio :: "inputs \<Rightarrow> py_error + pynum" where
  "marketing_efficiency_ratio i =
     (if py_gt (marketing_spend i) (PyInt 0)
      then py_truediv (Revenue i) (marketing_spend i)
      else Inr (PyInt 0))"

definition marketing_spend_pct :: "inputs \<Rightarrow> py_error + pynum" where
  "marketing_spend_pct i =
     (if py_gt (Revenue i) (PyInt 0)
      then py_truediv (marketing_spend i) (Revenue i)
      else Inr (PyInt 0))"

text \<open>
  The dict \<^verbatim>\<open>marketing_results\<close>. The locals are evaluated in the order of the source, then
  the items of the dict literal in the order they are written; the first exception, if any,
  leaves the function.
\<close>

definition marketing_results :: "inputs \<Rightarrow> py_error + pyval" where
  "marketing_results i =
     bindE (cac i) (\<lambda>cac'.
     bindE (lost_customers i) (\<lambda>lost_customers'.
     bindE (churn_rate i) (\<lambda>churn_rate'.
     bindE (retention_rate i) (\<lambda>retention_rate'.
     bindE (starting_rev i) (\<lambda>starting_rev'.
     bindE (nrr i) (\<lambda>nrr'.
     bindE (ltv i) (\<lambda>ltv'.
     bindE (ltv_cac_ratio i) (\<lambda>ltv_cac_ratio'.
     bindE (payback_period i) (\<lambda>payback_period'.
     bindE (marketing_efficiency_ratio i) (\<lambda>marketing_efficiency_ratio'.
     bindE (marketing_spend_pct i) (\<lambda>marketing_spend_pct'.
     bindE (format_pct1 marketing_spend_pct') (\<lambda>marketing_spend_pct_text.
     bindE (format_pct1 retention_rate') (\<lambda>retention_rate_text.
     bindE (format_pct1 churn_rate') (\<lambda>churn_rate_text.
     bindE (format_pct1 nrr') (\<lambda>nrr_text.
       Inr (Dict
         [(''Acquisition'', Dict
            [(''CAC'', Num (py_round cac' 2)),
             (''Marketing_Spend_Pct'', Str marketing_spend_pct_text),
             (''Marketing_Efficiency_Ratio'', Num (py_round marketing_efficiency_ratio' 2))]),
          (''Retention_and_Value'', Dict
            [(''Retention_Rate'', Str retention_rate_text),
             (''Churn_Rate'', Str churn_rate_text),
             (''Net_Revenue_Retention'', Str nrr_text),
             (''LTV'', Num (py_round ltv' 2))]),
          (''Unit_Economics'', Dict
            [(''LTV_CAC_Ratio'', Num (py_round ltv_cac_ratio' 2)),
             (''Payback_Period_Months'', Num (py_round payback_period' 1)),
             (''Status'', Str (if py_ge ltv_cac_ratio' (PyInt 3)
                               then ''Healthy'' else ''Needs Optimization''))])]))))))))))))))))"

definition analyze_marketing_performance ::
  "(real \<Rightarrow> string) \<Rightarrow> 'w generate_text \<Rightarrow> inputs \<Rightarrow> 'w world \<Rightarrow>
     (py_error + pyval \<times> string) \<times> 'w world" where
  "analyze_marketing_performance fr gen i w =
     (case marketing_results i of
        Inl e \<Rightarrow> (Inl e, w)
      | Inr results \<Rightarrow>
          (case construct_prompt_marketing fr gen results w of
             (Inl e, w') \<Rightarrow> (Inl e, w')
           | (Inr ai_report, w') \<Rightarrow> (Inr (results, ai_report), w')))"

section \<open>Financial metrics\<close>

text \<open>The local variables of \<^verbatim>\<open>financial_analysis\<close>, in the order of the source.\<close>

definition Current_Assets :: "inputs \<Rightarrow> py_error + pynum" where
  "Current_Assets i =
     bindE (py_add (cash_equivalents i) (accounts_receivable i)) (\<lambda>s. py_add s (inventory i))"

definition Total_Assets :: "inputs \<Rightarrow> py_error + pynum" where
  "Total_Assets i =
     bindE (Current_Assets i) (\<lambda>Current_Assets'.
     bindE (py_add Current_Assets' (fixed_assets_ppe i)) (\<lambda>s. py_add s (intangible_assets i)))"

definition Current_Liab :: "inputs \<Rightarrow> py_error + pynum" where
  "Current_Liab i = py_add (accounts_payable i) (accrued_expenses i)"

definition NWC :: "inputs \<Rightarrow> py_error + pynum" where
  "NWC i =
     bindE (Current_Assets i) (\<lambda>Current_Assets'.
     bindE (Current_Liab i) (\<lambda>Current_Liab'. py_sub Current_Assets' Current_Liab'))"

definition current_ratio :: "inputs \<Rightarrow> py_error + pynum" where
  "current_ratio i =
     bindE (Current_Assets i) (\<lambda>Current_Assets'.
     bindE (Current_Liab i) (\<lambda>Current_Liab'.
       if py_bool Current_Liab' then py_truediv Current_Assets' Current_Liab'
       else Inr (PyInt 0)))"

definition quick_ratio :: "inputs \<Rightarrow> py_error + pynum" where
  "quick_ratio i =
     bindE (Current_Assets i) (\<lambda>Current_Assets'.
     bindE (Current_Liab i) (\<lambda>Current_Liab'.
       if py_bool Current_Liab'
       then bindE (py_sub Current_Assets' (inventory i)) (\<lambda>q. py_truediv q Current_Liab')
       else Inr (PyInt 0)))"

definition cash_ratio :: "inputs \<Rightarrow> py_error + pynum" where
  "cash_ratio i =
     bindE (Current_Liab i) (\<lambda>Current_Liab'.
       if py_bool Current_Liab' then py_truediv (cash_equivalents i) Current_Liab'
       else Inr (PyInt 0))"

definition interval_measure :: "inputs \<Rightarrow> py_error + pynum" where
  "interval_measure i =
     bindE (Current_Assets i) (\<lambda>Current_Assets'.
       if py_bool (COGS i)
       then bindE (py_truediv (COGS i) (PyInt 365)) (\<lambda>daily. py_truediv Current_Assets' daily)
       else Inr (PyInt 0))"

definition total_debt_ratio :: "inputs \<Rightarrow> py_error + pynum" where
  "total_debt_ratio i =
     bindE (Total_Assets i) (\<lambda>Total_Assets'.
       if py_bool Total_Assets'
       then bindE (py_sub Total_Assets' (shareholders_equity i)) (\<lambda>d.
              py_truediv d Total_Assets')
       else Inr (PyInt 0))"

definition equity_multiplier :: "inputs \<Rightarrow> py_error + pynum" where
  "equity_multiplier i =
     bindE (Total_Assets i) (\<lambda>Total_Assets'.
       if py_bool (shareholders_equity i) then py_truediv Total_Assets' (shareholders_equity i)
       else Inr (PyInt 0))"

definition ltd_ratio :: "inputs \<Rightarrow> py_error + pynum" where
  "ltd_ratio i =
     bindE (py_add (long_term_debt i) (shareholders_equity i)) (\<lambda>c.
       if py_bool c
       then bindE (py_add (long_term_debt i) (shareholders_equity i)) (\<lambda>d.
              py_truediv (long_term_debt i) d)
       else Inr (PyInt 0))"

definition tie :: "inputs \<Rightarrow> py_error + pynum" where
  "tie i =
     (if py_bool (Interest_Expense i) then py_truediv (EBIT i) (Interest_Expense i)
      else Inr (PyInt 0))"

definition cash_coverage :: "inputs \<Rightarrow> py_error + pynum" where
  "cash_coverage i =
     (if py_bool (Interest_Expense i) then py_truediv (EBITDA i) (Interest_Expense i)
      else Inr (PyInt 0))"

definition total_asset_turnover :: "inputs \<Rightarrow> py_error + pynum" where
  "total_asset_turnover i =
     bindE (Total_Assets i) (\<lambda>Total_Assets'.
       if py_bool Total_Assets' then py_truediv (Revenue i) Total_Assets'
       else Inr (PyInt 0))"

definition nwc_turnover :: "inputs \<Rightarrow> py_error + pynum" where
  "nwc_turnover i =
     bindE (NWC i) (\<lambda>NWC'.
       if py_bool NWC' then py_truediv (Revenue i) NWC' else Inr (PyInt 0))"

definition fixed_asset_turnover :: "inputs \<Rightarrow> py_error + pynum" where
  "fixed_asset_turnover i =
     (if py_bool (fixed_assets_ppe i) then py_truediv (Revenue i) (fixed_assets_ppe i)
      else Inr (PyInt 0))"

definition gross_margin :: "inputs \<Rightarrow> py_error + pynum" where
  "gross_margin i =
     (if py_bool (Revenue i) then py_truediv (Gross_Profit i) (Revenue i) else Inr (PyInt 0))"

definition profit_margin :: "inputs \<Rightarrow> py_error + pynum" where
  "profit_margin i =
     (if py_bool (Revenue i) then py_truediv (Net_Income i) (Revenue i) else Inr (PyInt 0))"

definition roa :: "inputs \<Rightarrow> py_error + pynum" where
  "roa i =
     bindE (Total_Assets i) (\<lambda>Total_Assets'.
       if py_bool Total_Assets' then py_truediv (Net_Income i) Total_Assets'
       else Inr (PyInt 0))"

definition roe :: "inputs \<Rightarrow> py_error + pynum" where
  "roe i =
     (if py_bool (shareholders_equity i) then py_truediv (Net_Income i) (shareholders_equity i)
      else Inr (PyInt 0))"

definition dupont_roe :: "inputs \<Rightarrow> py_error + pynum" where
  "dupont_roe i =
     bindE (profit_margin i) (\<lambda>profit_margin'.
     bindE (total_asset_turnover i) (\<lambda>total_asset_turnover'.
     bindE (equity_multiplier i) (\<lambda>equity_multiplier'.
     bindE (py_mul profit_margin' total_asset_turnover') (\<lambda>p.
       py_mul p equity_multiplier'))))"

definition market_cap :: "inputs \<Rightarrow> py_error + pynum" where
  "market_cap i = py_mul (stock_price i) (shares_outstanding i)"

definition pe_ratio :: "inputs \<Rightarrow> py_error + pynum" where
  "pe_ratio i =
     (if py_bool (Net_Income i) \<and> py_bool (shares_outstanding i)
      then bindE (py_truediv (Net_Income i) (shares_outstanding i))
             (\<lambda>eps. py_truediv (stock_price i) eps)
      else Inr (PyInt 0))"

definition market_to_book :: "inputs \<Rightarrow> py_error + pynum" where
  "market_to_book i =
     bindE (market_cap i) (\<lambda>market_cap'.
       if py_bool (shareholders_equity i) then py_truediv market_cap' (shareholders_equity i)
       else Inr (PyInt 0))"

definition price_sales :: "inputs \<Rightarrow> py_error + pynum" where
  "price_sales i =
     bindE (market_cap i) (\<lambda>market_cap'.
       if py_bool (Revenue i) then py_truediv market_cap' (Revenue i) else Inr (PyInt 0))"

definition enterprise_value :: "inputs \<Rightarrow> py_error + pynum" where
  "enterprise_value i =
     bindE (market_cap i) (\<lambda>market_cap'.
     bindE (py_add market_cap' (long_term_debt i)) (\<lambda>s. py_sub s (cash_equivalents i)))"

definition ev_ebitda :: "inputs \<Rightarrow> py_error + pynum" where
  "ev_ebitda i =
     bindE (enterprise_value i) (\<lambda>enterprise_value'.
       if py_bool (EBITDA i) then py_truediv enterprise_value' (EBITDA i) else Inr (PyInt 0))"

definition inv_turnover :: "inputs \<Rightarrow> py_error + pynum" where
  "inv_turnover i =
     (if py_bool (inventory i) then py_truediv (COGS i) (inventory i) else Inr (PyInt 0))"

definition days_sales_inv :: "inputs \<Rightarrow> py_error + pynum" where
  "days_sales_inv i =
     bindE (inv_turnover i) (\<lambda>inv_turnover'.
       if py_bool inv_turnover' then py_truediv (PyInt 365) inv_turnover' else Inr (PyInt 0))"

definition rec_turnover :: "inputs \<Rightarrow> py_error + pynum" where
  "rec_turnover i =
     (if py_bool (accounts_receivable i) then py_truediv (Revenue i) (accounts_receivable i)
      else Inr (PyInt 0))"

definition days_sales_rec :: "inputs \<Rightarrow> py_error + pynum" where
  "days_sales_rec i =
     bindE (rec_turnover i) (\<lambda>rec_turnover'.
       if py_bool rec_turnover' then py_truediv (PyInt 365) rec_turnover' else Inr (PyInt 0))"

text \<open>The dict \<^verbatim>\<open>financial_results\<close>, after the locals in the order of the source.\<close>

definition financial_results :: "inputs \<Rightarrow> py_error + pyval" where
  "financial_results i =
     bindE (Current_Assets i) (\<lambda>Current_Assets'.
     bindE (Total_Assets i) (\<lambda>Total_Assets'.
     bindE (Current_Liab i) (\<lambda>Current_Liab'.
     bindE (NWC i) (\<lambda>NWC'.
     bindE (current_ratio i) (\<lambda>current_ratio'.
     bindE (quick_ratio i) (\<lambda>quick_ratio'.
     bindE (cash_ratio i) (\<lambda>cash_ratio'.
     bindE (interval_measure i) (\<lambda>interval_measure'.
     bindE (total_debt_ratio i) (\<lambda>total_debt_ratio'.
     bindE (equity_multiplier i) (\<lambda>equity_multiplier'.
     bindE (ltd_ratio i) (\<lambda>ltd_ratio'.
     bindE (tie i) (\<lambda>tie'.
     bindE (cash_coverage i) (\<lambda>cash_coverage'.
     bindE (total_asset_turnover i) (\<lambda>total_asset_turnover'.
     bindE (nwc_turnover i) (\<lambda>nwc_turnover'.
     bindE (fixed_asset_turnover i) (\<lambda>fixed_asset_turnover'.
     bindE (gross_margin i) (\<lambda>gross_margin'.
     bindE (profit_margin i) (\<lambda>profit_margin'.
     bindE (roa i) (\<lambda>roa'.
     bindE (roe i) (\<lambda>roe'.
     bindE (dupont_roe i) (\<lambda>dupont_roe'.
     bindE (market_cap i) (\<lambda>market_cap'.
     bindE (pe_ratio i) (\<lambda>pe_ratio'.
     bindE (market_to_book i) (\<lambda>market_to_book'.
     bindE (price_sales i) (\<lambda>price_sales'.
     bindE (enterprise_value i) (\<lambda>enterprise_value'.
     bindE (ev_ebitda i) (\<lambda>ev_ebitda'.
     bindE (inv_turnover i) (\<lambda>inv_turnover'.
     bindE (days_sales_inv i) (\<lambda>days_sales_inv'.
     bindE (rec_turnover i) (\<lambda>rec_turnover'.
     bindE (days_sales_rec i) (\<lambda>days_sales_rec'.
       Inr (Dict
         [(''Liquidity'', Dict
            [(''Current'', Num (py_round current_ratio' 2)),
             (''Quick'', Num (py_round quick_ratio' 2)),
             (''Cash'', Num (py_round cash_ratio' 2)),
             (''Interval'', Num (py_round interval_measure' 2))]),
          (''Solvency'', Dict
            [(''Debt Ratio'', Num (py_round total_debt_ratio' 2)),
             (''Multiplier'', Num (py_round equity_multiplier' 2)),
             (''LTD'', Num (py_round ltd_ratio' 2)),
             (''TIE'', Num (py_round tie' 2)),
             (''Cash Coverage'', Num (py_round cash_coverage' 2))]),
          (''Turnover'', Dict
            [(''Total Asset'', Num (py_round total_asset_turnover' 2)),
             (''NWC'', Num (py_round nwc_turnover' 2)),
             (''Fixed Asset'', Num (py_round fixed_asset_turnover' 2))]),
          (''Profitability'', Dict
            [(''Gross Margin'', Num (py_round gross_margin' 4)),
             (''Profit Margin'', Num (py_round profit_margin' 4)),
             (''ROA'', Num (py_round roa' 4)),
             (''ROE'', Num (py_round roe' 4))]),
          (''DuPont_Breakdown'', Dict
            [(''Profitability_Lever'', Num (py_round profit_margin' 4)),
             (''Efficiency_Lever'', Num (py_round total_asset_turnover' 2)),
             (''Leverage_Lever'', Num (py_round equity_multiplier' 2)),
             (''Calculated_ROE'', Num (py_round dupont_roe' 4))]),
          (''Market'', Dict
            [(''P/E'', Num (py_round pe_ratio' 2)),
             (''Market/Book'', Num (py_round market_to_book' 2)),
             (''Price/Sales'', Num (py_round price_sales' 4)),
             (''EV'', Num (py_round enterprise_value' 2)),
             (''EV_EBITDA'', Num (py_round ev_ebitda' 2))]),
          (''Operational'', Dict
            [(''Inv_Turnover'', Num (py_round inv_turnover' 2)),
             (''DSI'', Num (py_round days_sales_inv' 2)),
             (''Rec_Turnover'', Num (py_round rec_turnover' 2)),
             (''DSO'', Num (py_round days_sales_rec' 2))])]))))))))))))))))))))))))))))))))"

definition financial_analysis ::
  "(real \<Rightarrow> string) \<Rightarrow> 'w generate_text \<Rightarrow> inputs \<Rightarrow> 'w world \<Rightarrow>
     (py_error + pyval \<times> string) \<times> 'w world" where
  "financial_analysis fr gen i w =
     (case financial_results i of
        Inl e \<Rightarrow> (Inl e, w)
      | Inr results \<Rightarrow>
          (case construct_prompt_financial fr gen results w of
             (Inl e, w') \<Rightarrow> (Inl e, w')
           | (Inr ai_report, w') \<Rightarrow> (Inr (results, ai_report), w')))"

section \<open>Full analysis\<close>

definition analyze_business ::
  "(real \<Rightarrow> string) \<Rightarrow> 'w generate_text \<Rightarrow> inputs \<Rightarrow> 'w world \<Rightarrow> (py_error + pyval) \<times> 'w world" where
  "analyze_business fr gen i w =
     (case financial_analysis fr gen i w of
        (Inl e, w1) \<Rightarrow> (Inl e, w1)
      | (Inr (financial_metrics, financial_report), w1) \<Rightarrow>
          (case analyze_marketing_performance fr gen i w1 of
             (Inl e, w2) \<Rightarrow> (Inl e, w2)
           | (Inr (marketing_metrics, marketing_report), w2) \<Rightarrow>
               (case construct_prompt_ceo gen financial_report marketing_report w2 of
                  (Inl e, w3) \<Rightarrow> (Inl e, w3)
                | (Inr ceo_report, w3) \<Rightarrow>
                    (Inr (Dict
                       [(''financial_metrics'', financial_metrics),
                        (''financial_report'', Str financial_report),
                        (''marketing_metrics'', marketing_metrics),
                        (''marketing_report'', Str marketing_report),
                        (''ceo_report'', Str ceo_report)]), w3))))"

section \<open>Sample arguments\<close>

text \<open>
  The values the form of \<^verbatim>\<open>app.py\<close> is filled with by default, and variations of them
  used as examples below.
\<close>

definition sample_inputs :: inputs where
  "sample_inputs =
     \<lparr>Revenue = PyInt 1200000, marketing_spend = PyInt 75000, new_customers_acquired = PyInt 300,
      total_customers_start_period = PyInt 2000, total_customers_end_period = PyInt 2200,
      avg_revenue_per_user_monthly = PyFloat 150, gross_margin_pct = PyFloat (round64 (65 / 100)),
      expansion_revenue = PyInt 12000,
      COGS = PyInt 420000, Gross_Profit = PyInt 780000, Sales_and_Marketing = PyInt 200000,
      Research_and_Development = PyInt 120000, General_and_Administrative = PyInt 150000,
      EBITDA = PyInt 310000, Depreciation_and_Amortization = PyInt 40000, EBIT = PyInt 270000,
      Interest_Expense = PyInt 12000, Net_Income = PyInt 203820,
      cash_equivalents = PyInt 250000, accounts_receivable = PyInt 95000, inventory = PyInt 180000,
      fixed_assets_ppe = PyInt 400000, intangible_assets = PyInt 100000,
      accounts_payable = PyInt 60000, accrued_expenses = PyInt 25000,
      long_term_debt = PyInt 350000, shareholders_equity = PyInt 600000,
      stock_price = PyFloat 45, shares_outstanding = PyInt 50000\<rparr>"

definition ratio_3_inputs :: inputs where
  "ratio_3_inputs =
     sample_inputs\<lparr>marketing_spend := PyInt 1000000, new_customers_acquired := PyInt 100,
       total_customers_start_period := PyInt 1000, total_customers_end_period := PyInt 600,
       avg_revenue_per_user_monthly := PyFloat 15000, gross_margin_pct := PyFloat 1\<rparr>"

definition ratio_299_inputs :: inputs where
  "ratio_299_inputs = ratio_3_inputs\<lparr>avg_revenue_per_user_monthly := PyFloat 14950\<rparr>"

definition ratio_2996_inputs :: inputs where
  "ratio_2996_inputs = ratio_3_inputs\<lparr>avg_revenue_per_user_monthly := PyFloat 14980\<rparr>"

definition zero_inputs :: inputs where
  "zero_inputs =
     \<lparr>Revenue = PyInt 0, marketing_spend = PyInt 0, new_customers_acquired = PyInt 0,
      total_customers_start_period = PyInt 0, total_customers_end_period = PyInt 0,
      avg_revenue_per_user_monthly = PyInt 0, gross_margin_pct = PyInt 0,
      expansion_revenue = PyInt 0,
      COGS = PyInt 0, Gross_Profit = PyInt 0, Sales_and_Marketing = PyInt 0,
      Research_and_Development = PyInt 0, General_and_Administrative = PyInt 0,
      EBITDA = PyInt 0, Depreciation_and_Amortization = PyInt 0, EBIT = PyInt 0,
      Interest_Expense = PyInt 0, Net_Income = PyInt 0,
      cash_equivalents = PyInt 0, accounts_receivable = PyInt 0, inventory = PyInt 0,
      fixed_assets_ppe = PyInt 0, intangible_assets = PyInt 0,
      accounts_payable = PyInt 0, accrued_expenses = PyInt 0,
      long_term_debt = PyInt 0, shareholders_equity = PyInt 0,
      stock_price = PyInt 0, shares_outstanding = PyInt 1\<rparr>"

definition no_revenue_inputs :: inputs where
  "no_revenue_inputs = sample_inputs\<lparr>Revenue := PyInt 0\<rparr>"

text \<open>
  Arguments at the edge of the float format: a cost of goods sold of \<^verbatim>\<open>1e-323\<close>, a revenue
  per user and a margin of \<^verbatim>\<open>1e-200\<close> each, a revenue of \<^verbatim>\<open>1e-320\<close>; the other arguments
  are the defaults of the form. A float literal denotes the float nearest to it.
\<close>

definition tiny_cogs_inputs :: inputs where
  "tiny_cogs_inputs = sample_inputs\<lparr>COGS := PyFloat (round64 (1 / 10 ^ 323))\<rparr>"

definition tiny_margin_inputs :: inputs where
  "tiny_margin_inputs =
     sample_inputs\<lparr>avg_revenue_per_user_monthly := PyFloat (round64 (1 / 10 ^ 200)),
       gross_margin_pct := PyFloat (round64 (1 / 10 ^ 200))\<rparr>"

definition tiny_revenue_inputs :: inputs where
  "tiny_revenue_inputs = sample_inputs\<lparr>Revenue := PyFloat (round64 (1 / 10 ^ 320))\<rparr>"

text \<open>All arguments zero but the accounts payable, and the same with another unused argument.\<close>

definition payables_inputs :: inputs where
  "payables_inputs = zero_inputs\<lparr>accounts_payable := PyInt 5\<rparr>"

definition other_overheads_inputs :: inputs where
  "other_overheads_inputs = sample_inputs\<lparr>Sales_and_Marketing := PyInt 5\<rparr>"

text \<open>The reports of \<open>zero_inputs\<close>, written out.\<close>

definition zero_financial_results :: pyval where
  "zero_financial_results =
     Dict
       [(''Liquidity'', Dict
          [(''Current'', Num (PyInt 0)), (''Quick'', Num (PyInt 0)), (''Cash'', Num (PyInt 0)),
           (''Interval'', Num (PyInt 0))]),
        (''Solvency'', Dict
          [(''Debt Ratio'', Num (PyInt 0)), (''Multiplier'', Num (PyInt 0)),
           (''LTD'', Num (PyInt 0)), (''TIE'', Num (PyInt 0)), (''Cash Coverage'', Num (PyInt 0))]),
        (''Turnover'', Dict
          [(''Total Asset'', Num (PyInt 0)), (''NWC'', Num (PyInt 0)),
           (''Fixed Asset'', Num (PyInt 0))]),
        (''Profitability'', Dict
          [(''Gross Margin'', Num (PyInt 0)), (''Profit Margin'', Num (PyInt 0)),
           (''ROA'', Num (PyInt 0)), (''ROE'', Num (PyInt 0))]),
        (''DuPont_Breakdown'', Dict
          [(''Profitability_Lever'', Num (PyInt 0)), (''Efficiency_Lever'', Num (PyInt 0)),
           (''Leverage_Lever'', Num (PyInt 0)), (''Calculated_ROE'', Num (PyInt 0))]),
        (''Market'', Dict
          [(''P/E'', Num (PyInt 0)), (''Market/Book'', Num (PyInt 0)),
           (''Price/Sales'', Num (PyInt 0)), (''EV'', Num (PyInt 0)),
           (''EV_EBITDA'', Num (PyInt 0))]),
        (''Operational'', Dict
          [(''Inv_Turnover'', Num (PyInt 0)), (''DSI'', Num (PyInt 0)),
           (''Rec_Turnover'', Num (PyInt 0)), (''DSO'', Num (PyInt 0))])]"

definition zero_marketing_results :: pyval where
  "zero_marketing_results =
     Dict
       [(''Acquisition'', Dict
          [(''CAC'', Num (PyInt 0)), (''Marketing_Spend_Pct'', Str ''0.0%''),
           (''Marketing_Efficiency_Ratio'', Num (PyInt 0))]),
        (''Retention_and_Value'', Dict
          [(''Retention_Rate'', Str ''100.0%''), (''Churn_Rate'', Str ''0.0%''),
           (''Net_Revenue_Retention'', Str ''0.0%''), (''LTV'', Num (PyInt 0))]),
        (''Unit_Economics'', Dict
          [(''LTV_CAC_Ratio'', Num (PyInt 0)), (''Payback_Period_Months'', Num (PyInt 0)),
           (''Status'', Str ''Needs Optimization'')])]"

text \<open>
  Providers: one that always raises, one that always answers, and one that counts its calls
  and raises on the second.
\<close>

definition failing_provider :: "unit generate_text" where
  "failing_provider prompt s = (Inl (GenerationError ''provider unavailable''), s)"

definition canned_provider :: "unit generate_text" where
  "canned_provider prompt s = (Inr ''narrative'', s)"

definition fails_on_second_call :: "nat generate_text" where
  "fails_on_second_call prompt n =
     (if n = 1 then Inl (GenerationError ''quota exceeded'') else Inr ''narrative'', n + 1)"

definition new_world :: "'w \<Rightarrow> 'w world" where
  "new_world p = \<lparr>calls = [], provider = p\<rparr>"

text \<open>
  The text of a float with at most four decimal places, as \<^verbatim>\<open>float.__repr__\<close> writes an
  ordinary number of that kind: at least one digit after the point and no trailing zeros.
  It stands for \<open>fr\<close> in the examples.
\<close>

definition decimal_repr :: "real \<Rightarrow> string" where
  "decimal_repr x =
     (let n = nat \<lfloor>\<bar>x\<bar> * 10000\<rfloor>; ip = n div 10000; fp = n mod 10000;
          ds = [fp div 1000, fp div 100 mod 10, fp div 10 mod 10, fp mod 10];
          kept = rev (dropWhile (\<lambda>d. d = 0) (rev (tl ds)))
      in (if x < 0 then ''-'' else '''') @ show_nat ip @ ''.'' @ map digit_char (hd ds # kept))"

section \<open>Facts about rounding\<close>

text \<open>
  \<open>round_half_even x\<close> is within one half of \<open>x\<close>; \<open>round64\<close> commutes with negation,
  keeps the bounds that are powers of two, leaves an integer below \<open>2 ^ 53\<close> scaled by a
  power of two unchanged, rounds to zero below half the smallest subnormal number, and has a
  relative error of at most \<open>2 powi (- 53)\<close> on the normal range.
\<close>

lemma floor_log2_eqI:
  assumes "2 powi k \<le> \<bar>x\<bar>" "\<bar>x\<bar> < 2 powi (k + 1)"
  shows "\<lfloor>log 2 \<bar>x\<bar>\<rfloor> = k"
proof -
  have z: "(0::real) < 2 powi k" by simp
  have p: "0 < \<bar>x\<bar>" using assms(1) z by linarith
  have a: "(2::real) powr (of_int k) = 2 powi k" by (simp add: powr_real_of_int')
  have b: "(2::real) powr (of_int k + 1) = 2 powi (k + 1)"
    using powr_real_of_int' [of "2::real" "k + 1"] by simp
  show ?thesis using p assms by (simp add: floor_log_eq_powr_iff a b)
qed



lemma round_half_even_of_int [simp]: "round_half_even (of_int k) = k"
  by (simp add: round_half_even_def)

lemma round_half_even_zero [simp]: "round_half_even 0 = 0"
  by (simp add: round_half_even_def)

lemma round_half_even_ge: "of_int k \<le> x \<Longrightarrow> k \<le> round_half_even x"
proof -
  assume "of_int k \<le> x"
  then have "k \<le> \<lfloor>x\<rfloor>" by (simp add: le_floor_iff)
  then show ?thesis by (simp add: round_half_even_def Let_def)
qed

lemma round_half_even_le: "x \<le> of_int k \<Longrightarrow> round_half_even x \<le> k"
proof (cases "x = of_int k")
  case True
  then show ?thesis by simp
next
  case False
  assume "x \<le> of_int k"
  with False have "x < of_int k" by simp
  then have "\<lfloor>x\<rfloor> < k" by (simp add: floor_less_iff)
  then show ?thesis by (simp add: round_half_even_def Let_def)
qed

lemma round_half_even_error: "\<bar>of_int (round_half_even x) - x\<bar> \<le> 1 / 2"
proof -
  have "of_int \<lfloor>x\<rfloor> \<le> x" "x < of_int \<lfloor>x\<rfloor> + 1" by linarith+
  then show ?thesis by (simp add: round_half_even_def Let_def abs_le_iff)
qed

lemma round_half_even_minus: "round_half_even (- x) = - round_half_even x"
proof (cases "x = of_int \<lfloor>x\<rfloor>")
  case True
  then obtain k where "x = of_int k" by blast
  then show ?thesis by (simp flip: of_int_minus)
next
  case False
  define f where "f = \<lfloor>x\<rfloor>"
  have f: "of_int f < x" "x < of_int f + 1" using False unfolding f_def by linarith+
  have c: "\<lfloor>- x\<rfloor> = - f - 1"
    by (rule floor_unique) (use f in simp_all)
  have e: "even (- f - 1) = odd f" by simp
  consider "x - of_int f < 1 / 2" | "1 / 2 < x - of_int f" | "x - of_int f = 1 / 2" by linarith
  then show ?thesis
  proof cases
    case 1
    then have "round_half_even x = f" by (simp add: round_half_even_def f_def [symmetric])
    moreover from 1 have "round_half_even (- x) = - f"
      by (simp add: round_half_even_def c)
    ultimately show ?thesis by simp
  next
    case 2
    then have "round_half_even x = f + 1" by (simp add: round_half_even_def f_def [symmetric])
    moreover from 2 have "round_half_even (- x) = - f - 1"
      by (simp add: round_half_even_def c)
    ultimately show ?thesis by simp
  next
    case 3
    then have "round_half_even x = (if even f then f else f + 1)"
      by (simp add: round_half_even_def f_def [symmetric])
    moreover from 3 have "- x - of_int (- f - 1) = 1 / 2" by simp
    then have "round_half_even (- x) = (if odd f then - f - 1 else - f)"
      by (simp add: round_half_even_def c e del: of_int_diff of_int_minus)
    ultimately show ?thesis by simp
  qed
qed



lemma floor_log2_bounds:
  assumes "x \<noteq> 0"
  shows "2 powi \<lfloor>log 2 \<bar>x\<bar>\<rfloor> \<le> \<bar>x\<bar>" and "\<bar>x\<bar> < 2 powi (\<lfloor>log 2 \<bar>x\<bar>\<rfloor> + 1)"
proof -
  define k where "k = \<lfloor>log 2 \<bar>x\<bar>\<rfloor>"
  have p: "0 < \<bar>x\<bar>" using assms by simp
  have a: "(2::real) powr (of_int k) = 2 powi k" by (simp add: powr_real_of_int')
  have b: "(2::real) powr (of_int k + 1) = 2 powi (k + 1)"
    using powr_real_of_int' [of "2::real" "k + 1"] by simp
  have "2 powr (of_int k) \<le> \<bar>x\<bar> \<and> \<bar>x\<bar> < 2 powr (of_int k + 1)"
    using p floor_log_eq_powr_iff [of "\<bar>x\<bar>" 2 k] by (simp add: k_def)
  then show "2 powi \<lfloor>log 2 \<bar>x\<bar>\<rfloor> \<le> \<bar>x\<bar>" and "\<bar>x\<bar> < 2 powi (\<lfloor>log 2 \<bar>x\<bar>\<rfloor> + 1)"
    by (simp_all add: a b k_def [symmetric])
qed

lemma powi2_less_iff: "(2::real) powi a < 2 powi b \<longleftrightarrow> a < b"
proof
  assume l: "(2::real) powi a < 2 powi b"
  show "a < b"
  proof (rule ccontr)
    assume "\<not> a < b"
    then have "b \<le> a" by simp
    then have "(2::real) powi b \<le> 2 powi a" by (rule power_int_increasing) simp
    with l show False by simp
  qed
next
  assume "a < b"
  then show "(2::real) powi a < 2 powi b" by (rule power_int_strict_increasing) simp
qed

lemma powi2_le_iff: "(2::real) powi a \<le> 2 powi b \<longleftrightarrow> a \<le> b"
  using powi2_less_iff [of b a] by (simp only: not_less [symmetric])

lemma ulp_exp_minus [simp]: "ulp_exp (- x) = ulp_exp x"
  by (simp add: ulp_exp_def)

lemma round64_zero [simp]: "round64 0 = 0"
  by (simp add: round64_def)

lemma round64_minus: "round64 (- x) = - round64 x"
  by (simp add: round64_def round_half_even_minus)

lemma round64_nonneg: "0 \<le> x \<Longrightarrow> 0 \<le> round64 x"
proof -
  assume "0 \<le> x"
  then have "of_int 0 \<le> x / 2 powi ulp_exp x" by simp
  then have "0 \<le> round_half_even (x / 2 powi ulp_exp x)" by (rule round_half_even_ge)
  then show ?thesis by (simp add: round64_def)
qed

lemma round64_abs: "\<bar>round64 x\<bar> = round64 \<bar>x\<bar>"
proof (cases "0 \<le> x")
  case True
  then show ?thesis using round64_nonneg [of x] by simp
next
  case False
  then have "0 \<le> - x" by simp
  then have "0 \<le> round64 (- x)" by (rule round64_nonneg)
  then show ?thesis using False by (simp add: round64_minus)
qed

lemma ulp_exp_le:
  assumes "x \<noteq> 0" "\<bar>x\<bar> \<le> 2 powi k" "- 1074 \<le> k"
  shows "ulp_exp x \<le> k"
proof -
  have "2 powi \<lfloor>log 2 \<bar>x\<bar>\<rfloor> \<le> (2::real) powi k"
    using floor_log2_bounds(1) [OF assms(1)] assms(2) by linarith
  then have "\<lfloor>log 2 \<bar>x\<bar>\<rfloor> \<le> k" by (simp only: powi2_le_iff)
  then show ?thesis using assms(3) by (simp add: ulp_exp_def)
qed

lemma powi2_int: "0 \<le> k \<Longrightarrow> (2::real) powi k = of_int (2 ^ nat k)"
  by (simp add: power_int_def)

lemma round64_abs_le:
  assumes "\<bar>x\<bar> \<le> 2 powi k" "- 1074 \<le> k"
  shows "\<bar>round64 x\<bar> \<le> 2 powi k"
proof (cases "x = 0")
  case True
  then show ?thesis by simp
next
  case False
  define e where "e = ulp_exp \<bar>x\<bar>"
  have e: "e \<le> k" using ulp_exp_le [of "\<bar>x\<bar>" k] False assms by (simp add: e_def)
  have "\<bar>x\<bar> / 2 powi e \<le> 2 powi k / 2 powi e" using assms(1) by (simp add: divide_right_mono)
  also have "\<dots> = 2 powi (k - e)" by (simp add: power_int_diff)
  also have "\<dots> = of_int (2 ^ nat (k - e))" using e by (simp add: powi2_int)
  finally have "round_half_even (\<bar>x\<bar> / 2 powi e) \<le> 2 ^ nat (k - e)" by (rule round_half_even_le)
  then have "of_int (round_half_even (\<bar>x\<bar> / 2 powi e)) \<le> (2::real) powi (k - e)"
    using e by (simp add: powi2_int del: of_int_power) 
  then have "of_int (round_half_even (\<bar>x\<bar> / 2 powi e)) * 2 powi e \<le> (2::real) powi (k - e) * 2 powi e"
    by (simp add: mult_right_mono)
  also have "(2::real) powi (k - e) * 2 powi e = 2 powi k" by (simp flip: power_int_add)
  finally have "round64 \<bar>x\<bar> \<le> 2 powi k" by (simp add: round64_def e_def)
  then show ?thesis by (simp add: round64_abs)
qed

lemma round64_abs_ge:
  assumes "2 powi k \<le> \<bar>x\<bar>" "- 1074 \<le> k"
  shows "2 powi k \<le> \<bar>round64 x\<bar>"
proof -
  have z: "(0::real) < 2 powi k" by simp
  have nz: "x \<noteq> 0"
  proof
    assume "x = 0"
    with assms(1) have "(2::real) powi k \<le> 0" by simp
    with z show False by linarith
  qed
  define L where "L = \<lfloor>log 2 \<bar>x\<bar>\<rfloor>"
  define e where "e = ulp_exp \<bar>x\<bar>"
  have lb: "2 powi L \<le> \<bar>x\<bar>" and ub: "\<bar>x\<bar> < 2 powi (L + 1)"
    using floor_log2_bounds [OF nz] by (simp_all add: L_def)
  have "(2::real) powi k < 2 powi (L + 1)" using assms(1) ub by linarith
  then have kL: "k \<le> L" by (simp add: powi2_less_iff)
  have ed: "e = max L (- 1022) - 52" by (simp add: e_def ulp_exp_def L_def)
  define j where "j = (if - 1022 \<le> L then L else k)"
  have j: "k \<le> j" "e \<le> j" "2 powi j \<le> \<bar>x\<bar>"
    using kL assms lb by (auto simp add: j_def ed)
  have "(2::real) powi (j - e) = 2 powi j / 2 powi e" by (simp add: power_int_diff)
  also have "\<dots> \<le> \<bar>x\<bar> / 2 powi e" using j(3) by (simp add: divide_right_mono)
  finally have "of_int (2 ^ nat (j - e)) \<le> \<bar>x\<bar> / 2 powi e" using j(2) by (simp add: powi2_int)
  then have "2 ^ nat (j - e) \<le> round_half_even (\<bar>x\<bar> / 2 powi e)" by (rule round_half_even_ge)
  then have "(2::real) powi (j - e) \<le> of_int (round_half_even (\<bar>x\<bar> / 2 powi e))"
    using j(2) by (simp add: powi2_int del: of_int_power)
  then have "(2::real) powi (j - e) * 2 powi e
               \<le> of_int (round_half_even (\<bar>x\<bar> / 2 powi e)) * 2 powi e"
    by (rule mult_right_mono) simp
  moreover have "(2::real) powi (j - e) * 2 powi e = 2 powi j" by (simp flip: power_int_add)
  ultimately have "(2::real) powi j \<le> of_int (round_half_even (\<bar>x\<bar> / 2 powi e)) * 2 powi e"
    by (simp only:)
  then have "2 powi j \<le> round64 \<bar>x\<bar>" by (simp add: round64_def e_def)
  moreover have "(2::real) powi k \<le> 2 powi j" using j(1) by (simp add: powi2_le_iff)
  ultimately show ?thesis by (simp add: round64_abs)
qed


lemma ulp_exp_subnormal:
  assumes "x \<noteq> 0" "\<bar>x\<bar> < 2 powi (- 1022)"
  shows "ulp_exp x = - 1074"
proof -
  have "2 powi \<lfloor>log 2 \<bar>x\<bar>\<rfloor> < (2::real) powi (- 1022)"
    using floor_log2_bounds(1) [OF assms(1)] assms(2) by linarith
  then have "\<lfloor>log 2 \<bar>x\<bar>\<rfloor> < - 1022" by (simp only: powi2_less_iff)
  then show ?thesis by (simp add: ulp_exp_def)
qed

lemma round64_underflow:
  assumes "\<bar>x\<bar> < 2 powi (- 1075)"
  shows "round64 x = 0"
proof (cases "x = 0")
  case True
  then show ?thesis by simp
next
  case False
  have "(2::real) powi (- 1075) < 2 powi (- 1022)" by (simp only: powi2_less_iff)
  with assms have "\<bar>x\<bar> < 2 powi (- 1022)" by linarith
  then have u: "ulp_exp \<bar>x\<bar> = - 1074" using False ulp_exp_subnormal [of "\<bar>x\<bar>"] by simp
  have "\<bar>x\<bar> / 2 powi (- 1074) < 2 powi (- 1075) / 2 powi (- 1074)"
    using assms by (simp add: divide_strict_right_mono)
  also have "(2::real) powi (- 1075) / 2 powi (- 1074) = 2 powi (- 1)"
    using power_int_diff [of "2::real" "- 1075" "- 1074"] by simp
  finally have h: "\<bar>x\<bar> / 2 powi (- 1074) < 1 / 2" by simp
  have nn: "0 \<le> \<bar>x\<bar> / 2 powi (- 1074)" by simp
  have "\<lfloor>\<bar>x\<bar> / 2 powi (- 1074)\<rfloor> = 0"
    by (rule floor_unique) (use h nn in simp_all)
  then have "round_half_even (\<bar>x\<bar> / 2 powi (- 1074)) = 0"
    using h by (simp add: round_half_even_def)
  then have "round64 \<bar>x\<bar> = 0" by (simp add: round64_def u)
  then show ?thesis by (simp flip: round64_abs) 
qed

lemma ulp_exp_le_of_lt:
  assumes "x \<noteq> 0" "\<bar>x\<bar> < 2 powi (e + 53)" "- 1074 \<le> e"
  shows "ulp_exp x \<le> e"
proof -
  have "2 powi \<lfloor>log 2 \<bar>x\<bar>\<rfloor> < (2::real) powi (e + 53)"
    using floor_log2_bounds(1) [OF assms(1)] assms(2) by linarith
  then have "\<lfloor>log 2 \<bar>x\<bar>\<rfloor> < e + 53" by (simp only: powi2_less_iff)
  then show ?thesis using assms(3) by (simp add: ulp_exp_def)
qed

lemma round64_exact:
  assumes "\<bar>n\<bar> < 2 ^ 53" "- 1074 \<le> e"
  shows "round64 (of_int n * 2 powi e) = of_int n * 2 powi e"
proof (cases "n = 0")
  case True
  then show ?thesis by simp
next
  case False
  define x :: real where "x = of_int n * 2 powi e"
  define u where "u = ulp_exp x"
  have nz: "x \<noteq> 0" using False by (simp add: x_def)
  have "real_of_int \<bar>n\<bar> < real_of_int (2 ^ 53)" using assms(1) by (simp only: of_int_less_iff)
  then have "\<bar>real_of_int n\<bar> < 2 ^ 53" by simp
  then have "\<bar>x\<bar> < 2 ^ 53 * 2 powi e"
    by (simp add: x_def abs_mult)
  also have "(2::real) ^ 53 * 2 powi e = 2 powi (e + 53)"
    using power_int_add [of "2::real" e 53] by simp
  finally have "\<bar>x\<bar> < 2 powi (e + 53)" .
  with nz have ue: "u \<le> e" unfolding u_def using assms(2) by (rule ulp_exp_le_of_lt)
  have "x / 2 powi u = of_int n * (2 powi e / 2 powi u)" by (simp add: x_def)
  also have "2 powi e / (2::real) powi u = 2 powi (e - u)" by (simp add: power_int_diff)
  also have "\<dots> = of_int (2 ^ nat (e - u))" using ue by (simp add: powi2_int)
  finally have "x / 2 powi u = of_int (n * 2 ^ nat (e - u))" by simp
  then have "round_half_even (x / 2 powi u) = n * 2 ^ nat (e - u)"
    by (simp only: round_half_even_of_int)
  then have "round64 x = of_int (n * 2 ^ nat (e - u)) * 2 powi u"
    by (simp add: round64_def u_def)
  also have "\<dots> = of_int n * (of_int (2 ^ nat (e - u)) * 2 powi u)" by simp
  also have "of_int (2 ^ nat (e - u)) = (2::real) powi (e - u)" using ue by (simp add: powi2_int)
  also have "(2::real) powi (e - u) * 2 powi u = 2 powi e" by (simp flip: power_int_add)
  finally show ?thesis by (simp add: x_def)
qed

lemma round64_int: "\<bar>n\<bar> < 2 ^ 53 \<Longrightarrow> round64 (of_int n) = of_int n"
  using round64_exact [of n 0] by simp

lemma round64_eval:
  assumes "2 powi k \<le> \<bar>x\<bar>" "\<bar>x\<bar> < 2 powi (k + 1)"
  shows "round64 x =
           of_int (round_half_even (x / 2 powi (max k (- 1022) - 52))) * 2 powi (max k (- 1022) - 52)"
proof -
  have "\<lfloor>log 2 \<bar>x\<bar>\<rfloor> = k" using assms by (rule floor_log2_eqI)
  then show ?thesis by (simp add: round64_def ulp_exp_def)
qed

lemma round64_nonzero: "2 powi (- 1074) \<le> \<bar>x\<bar> \<Longrightarrow> round64 x \<noteq> 0"
proof -
  assume "2 powi (- 1074) \<le> \<bar>x\<bar>"
  then have "2 powi (- 1074) \<le> \<bar>round64 x\<bar>" by (rule round64_abs_ge) simp
  moreover have "(0::real) < 2 powi (- 1074)" by simp
  ultimately show ?thesis by linarith
qed

lemma round64_nonpos: "x \<le> 0 \<Longrightarrow> round64 x \<le> 0"
  using round64_nonneg [of "- x"] by (simp add: round64_minus)

lemma round64_neg_iff: "round64 x \<noteq> 0 \<Longrightarrow> round64 x < 0 \<longleftrightarrow> x < 0"
  using round64_nonneg [of x] round64_nonpos [of x] by (cases "0 \<le> x") auto

lemma round64_error:
  "\<bar>round64 x - x\<bar> \<le> 2 powi ulp_exp x / 2"
proof -
  define u where "u = ulp_exp x"
  have p: "(0::real) < 2 powi u" by simp
  have "round64 x - x = (of_int (round_half_even (x / 2 powi u)) - x / 2 powi u) * 2 powi u"
    by (simp add: round64_def u_def algebra_simps)
  then have "\<bar>round64 x - x\<bar> = \<bar>of_int (round_half_even (x / 2 powi u)) - x / 2 powi u\<bar> * 2 powi u"
    by (simp add: abs_mult)
  also have "\<dots> \<le> 1 / 2 * 2 powi u"
    by (rule mult_right_mono [OF round_half_even_error]) simp
  finally show ?thesis by (simp add: u_def)
qed

lemma round64_error_rel:
  assumes "2 powi (- 1022) \<le> \<bar>x\<bar>"
  shows "\<bar>round64 x - x\<bar> \<le> \<bar>x\<bar> / 2 ^ 53"
proof -
  have z: "(0::real) < 2 powi (- 1022)" by simp
  have nz: "x \<noteq> 0"
  proof
    assume "x = 0"
    with assms have "(2::real) powi (- 1022) \<le> 0" by simp
    with z show False by linarith
  qed
  define L where "L = \<lfloor>log 2 \<bar>x\<bar>\<rfloor>"
  have lb: "2 powi L \<le> \<bar>x\<bar>" and ub: "\<bar>x\<bar> < 2 powi (L + 1)"
    using floor_log2_bounds [OF nz] by (simp_all add: L_def)
  have "(2::real) powi (- 1022) < 2 powi (L + 1)" using assms ub by linarith
  then have "- 1022 < L + 1" by (simp only: powi2_less_iff)
  then have "- 1022 \<le> L" by simp
  then have u: "ulp_exp x = L - 52" by (simp add: ulp_exp_def L_def)
  have "\<bar>round64 x - x\<bar> \<le> 2 powi (L - 52) / 2" using round64_error [of x] by (simp add: u)
  also have "(2::real) powi (L - 52) / 2 = 2 powi L / 2 ^ 53"
    by (simp add: power_int_diff)
  also have "\<dots> \<le> \<bar>x\<bar> / 2 ^ 53" using lb by (simp add: divide_right_mono)
  finally show ?thesis .
qed

section \<open>Facts about the arithmetic\<close>

subsection \<open>Sequencing\<close>

lemma bindE_Inr [simp]: "bindE (Inr x) f = f x" by (simp add: bindE_def)

lemma bindE_Inl [simp]: "bindE (Inl e) f = Inl e" by (simp add: bindE_def)

lemma bindE_eq_Inr_iff: "bindE m f = Inr y \<longleftrightarrow> \<not> isl m \<and> f (projr m) = Inr y"
  by (cases m) simp_all

lemma Inr_projr: "\<not> isl x \<Longrightarrow> x = Inr (projr x)"
  by (cases x) simp_all

subsection \<open>Conversions and exact operations\<close>

lemma round64_numeral [simp]:
  "(numeral k :: int) < 2 ^ 53 \<Longrightarrow> round64 (numeral k) = numeral k"
  using round64_int [of "numeral k"] by simp

lemma round64_one [simp]: "round64 1 = 1"
  using round64_int [of 1] by simp

lemma round64_neg_numeral [simp]:
  "(numeral k :: int) < 2 ^ 53 \<Longrightarrow> round64 (- numeral k) = - numeral k"
  by (simp add: round64_minus)

lemma to_float_float [simp]:
  "to_float (PyFloat x) = Inr (PyFloat x)" "to_float PyNegZero = Inr PyNegZero"
  "to_float (PyInf neg) = Inr (PyInf neg)" "to_float PyNaN = Inr PyNaN"
  by (simp_all add: to_float_def)

lemma to_float_not_int: "\<not> is_int a \<Longrightarrow> to_float a = Inr a"
  by (simp add: to_float_def)

lemma small_not_huge: "\<bar>x\<bar> \<le> 2 ^ 1023 \<Longrightarrow> \<not> 2 ^ 1024 \<le> \<bar>x::real\<bar>"
  by simp

lemma to_float_small: "\<bar>n\<bar> < 2 ^ 53 \<Longrightarrow> to_float (PyInt n) = Inr (PyFloat (of_int n))"
proof -
  assume a: "\<bar>n\<bar> < 2 ^ 53"
  then have "real_of_int \<bar>n\<bar> < real_of_int (2 ^ 53)" by (simp only: of_int_less_iff)
  then have "\<bar>real_of_int n\<bar> < 2 ^ 53" by simp
  then have "\<not> 2 ^ 1024 \<le> \<bar>real_of_int n\<bar>" by simp
  then show ?thesis using a by (simp add: to_float_def round64_int)
qed

lemma to_float_numeral [simp]:
  "(numeral k :: int) < 2 ^ 53 \<Longrightarrow> to_float (PyInt (numeral k)) = Inr (PyFloat (numeral k))"
  using to_float_small [of "numeral k"] by simp

lemma to_float_zero [simp]: "to_float (PyInt 0) = Inr (PyFloat 0)"
  using to_float_small [of 0] by simp

lemma to_float_one [simp]: "to_float (PyInt 1) = Inr (PyFloat 1)"
  using to_float_small [of 1] by simp

lemma float_of_real_zero [simp]: "float_of_real neg 0 = signed_zero neg"
  by (simp add: float_of_real_def)

lemma float_of_real_int:
  "\<bar>n\<bar> < 2 ^ 53 \<Longrightarrow> n \<noteq> 0 \<Longrightarrow> float_of_real neg (of_int n) = PyFloat (of_int n)"
proof -
  assume a: "\<bar>n\<bar> < 2 ^ 53" and nz: "n \<noteq> 0"
  then have "real_of_int \<bar>n\<bar> < real_of_int (2 ^ 53)" by (simp only: of_int_less_iff)
  then have "\<bar>real_of_int n\<bar> < 2 ^ 53" by simp
  then have "\<not> 2 ^ 1024 \<le> \<bar>real_of_int n\<bar>" by simp
  then show ?thesis using a nz by (simp add: float_of_real_def round64_int)
qed

lemma float_of_real_numeral [simp]:
  "(numeral k :: int) < 2 ^ 53 \<Longrightarrow> float_of_real neg (numeral k) = PyFloat (numeral k)"
  using float_of_real_int [of "numeral k"] by simp

lemma float_of_real_one [simp]: "float_of_real neg 1 = PyFloat 1"
  by (simp add: float_of_real_def)

lemma py_ops_int [simp]:
  "py_add (PyInt a) (PyInt b) = Inr (PyInt (a + b))"
  "py_sub (PyInt a) (PyInt b) = Inr (PyInt (a - b))"
  "py_mul (PyInt a) (PyInt b) = Inr (PyInt (a * b))"
  "py_truediv (PyInt a) (PyInt b) = int_truediv a b"
  by (simp_all add: py_add_def py_sub_def py_mul_def py_truediv_def)

lemma int_truediv_zero [simp]: "int_truediv a 0 = Inl ZeroDivisionError"
  by (simp add: int_truediv_def)

lemma py_gt_int [simp]: "py_gt (PyInt a) (PyInt b) \<longleftrightarrow> b < a"
  by (simp add: py_gt_def py_lt_def)

lemma py_gt_float_int [simp]: "py_gt (PyFloat x) (PyInt b) \<longleftrightarrow> of_int b < x"
  by (simp add: py_gt_def py_lt_def)

lemma py_gt_zero_simps [simp]:
  "\<not> py_gt PyNegZero (PyInt 0)" "\<not> py_gt PyNaN c" "py_gt (PyInf neg) (PyInt b) \<longleftrightarrow> \<not> neg"
  by (simp_all add: py_gt_def py_lt_def)

lemma py_ge_simps [simp]:
  "py_ge (PyInt a) (PyInt b) \<longleftrightarrow> b \<le> a" "py_ge (PyFloat x) (PyInt b) \<longleftrightarrow> of_int b \<le> x"
  "\<not> py_ge PyNaN c" "py_ge (PyInf neg) (PyInt b) \<longleftrightarrow> \<not> neg"
  "py_ge PyNegZero (PyInt b) \<longleftrightarrow> b \<le> 0"
  by (simp_all add: py_ge_def py_le_def)

lemma py_bool_simps [simp]:
  "py_bool (PyInt n) \<longleftrightarrow> n \<noteq> 0" "py_bool (PyFloat x) \<longleftrightarrow> x \<noteq> 0" "\<not> py_bool PyNegZero"
  "py_bool (PyInf neg)" "py_bool PyNaN"
  by (simp_all add: py_bool_def)


lemma round_half_even_numeral [simp]: "round_half_even (numeral k) = numeral k"
  using round_half_even_of_int [of "numeral k"] by simp

section \<open>The reports as functions of the local variables\<close>


lemma marketing_results_locals:
  assumes "marketing_results i = Inr r"
  shows "\<not> isl (cac i)" "\<not> isl (lost_customers i)" "\<not> isl (churn_rate i)"
    "\<not> isl (retention_rate i)" "\<not> isl (starting_rev i)" "\<not> isl (nrr i)" "\<not> isl (ltv i)"
    "\<not> isl (ltv_cac_ratio i)" "\<not> isl (payback_period i)"
    "\<not> isl (marketing_efficiency_ratio i)" "\<not> isl (marketing_spend_pct i)"
    "\<not> isl (format_pct1 (projr (marketing_spend_pct i)))"
    "\<not> isl (format_pct1 (projr (retention_rate i)))"
    "\<not> isl (format_pct1 (projr (churn_rate i)))"
    "\<not> isl (format_pct1 (projr (nrr i)))"
  using assms by (simp_all add: marketing_results_def bindE_eq_Inr_iff)

lemma financial_results_unfold:
  assumes "financial_results i = Inr r"
  shows "r = Dict
         [(''Liquidity'', Dict
            [(''Current'', Num (py_round (projr (current_ratio i)) 2)),
             (''Quick'', Num (py_round (projr (quick_ratio i)) 2)),
             (''Cash'', Num (py_round (projr (cash_ratio i)) 2)),
             (''Interval'', Num (py_round (projr (interval_measure i)) 2))]),
          (''Solvency'', Dict
            [(''Debt Ratio'', Num (py_round (projr (total_debt_ratio i)) 2)),
             (''Multiplier'', Num (py_round (projr (equity_multiplier i)) 2)),
             (''LTD'', Num (py_round (projr (ltd_ratio i)) 2)),
             (''TIE'', Num (py_round (projr (tie i)) 2)),
             (''Cash Coverage'', Num (py_round (projr (cash_coverage i)) 2))]),
          (''Turnover'', Dict
            [(''Total Asset'', Num (py_round (projr (total_asset_turnover i)) 2)),
             (''NWC'', Num (py_round (projr (nwc_turnover i)) 2)),
             (''Fixed Asset'', Num (py_round (projr (fixed_asset_turnover i)) 2))]),
          (''Profitability'', Dict
            [(''Gross Margin'', Num (py_round (projr (gross_margin i)) 4)),
             (''Profit Margin'', Num (py_round (projr (profit_margin i)) 4)),
             (''ROA'', Num (py_round (projr (roa i)) 4)),
             (''ROE'', Num (py_round (projr (roe i)) 4))]),
          (''DuPont_Breakdown'', Dict
            [(''Profitability_Lever'', Num (py_round (projr (profit_margin i)) 4)),
             (''Efficiency_Lever'', Num (py_round (projr (total_asset_turnover i)) 2)),
             (''Leverage_Lever'', Num (py_round (projr (equity_multiplier i)) 2)),
             (''Calculated_ROE'', Num (py_round (projr (dupont_roe i)) 4))]),
          (''Market'', Dict
            [(''P/E'', Num (py_round (projr (pe_ratio i)) 2)),
             (''Market/Book'', Num (py_round (projr (market_to_book i)) 2)),
             (''Price/Sales'', Num (py_round (projr (price_sales i)) 4)),
             (''EV'', Num (py_round (projr (enterprise_value i)) 2)),
             (''EV_EBITDA'', Num (py_round (projr (ev_ebitda i)) 2))]),
          (''Operational'', Dict
            [(''Inv_Turnover'', Num (py_round (projr (inv_turnover i)) 2)),
             (''DSI'', Num (py_round (projr (days_sales_inv i)) 2)),
             (''Rec_Turnover'', Num (py_round (projr (rec_turnover i)) 2)),
             (''DSO'', Num (py_round (projr (days_sales_rec i)) 2))])]"
  using assms by (simp add: financial_results_def bindE_eq_Inr_iff)

lemma financial_results_locals:
  assumes "financial_results i = Inr r"
  shows "\<not> isl (Current_Assets i)" "\<not> isl (Total_Assets i)" "\<not> isl (Current_Liab i)"
    "\<not> isl (NWC i)" "\<not> isl (current_ratio i)" "\<not> isl (quick_ratio i)"
    "\<not> isl (cash_ratio i)" "\<not> isl (interval_measure i)" "\<not> isl (total_debt_ratio i)"
    "\<not> isl (equity_multiplier i)" "\<not> isl (ltd_ratio i)" "\<not> isl (tie i)"
    "\<not> isl (cash_coverage i)" "\<not> isl (total_asset_turnover i)" "\<not> isl (nwc_turnover i)"
    "\<not> isl (fixed_asset_turnover i)" "\<not> isl (gross_margin i)" "\<not> isl (profit_margin i)"
    "\<not> isl (roa i)" "\<not> isl (roe i)" "\<not> isl (dupont_roe i)" "\<not> isl (market_cap i)"
    "\<not> isl (pe_ratio i)" "\<not> isl (market_to_book i)" "\<not> isl (price_sales i)"
    "\<not> isl (enterprise_value i)" "\<not> isl (ev_ebitda i)" "\<not> isl (inv_turnover i)"
    "\<not> isl (days_sales_inv i)" "\<not> isl (rec_turnover i)" "\<not> isl (days_sales_rec i)"
  using assms by (simp_all add: financial_results_def bindE_eq_Inr_iff)

section \<open>The sample arguments, evaluated\<close>

text \<open>
  The roundings to binary64 that occur when the two metric computations run on the sample
  arguments, each verified from the definition of \<open>round64\<close>.
\<close>

lemma round64_sample_0: "round64 (2970939442134968069332467635641 / 29709394421349681756905405205037586945354674513912105456990149419762540397671940778635883047714723700728034044609018752580415440512016810013465897133206448300711141298321469941942634945325767773765421229628542537582252150006480921810886453035790547064356084841643824896876723654308149038286624561491907987580592908849198747021761397708460162416672701998639294621902395908857155973689670912922569526518216726075721818986257605197824) = 0"
  using round64_eval [of "- 1329" "2970939442134968069332467635641 / 29709394421349681756905405205037586945354674513912105456990149419762540397671940778635883047714723700728034044609018752580415440512016810013465897133206448300711141298321469941942634945325767773765421229628542537582252150006480921810886453035790547064356084841643824896876723654308149038286624561491907987580592908849198747021761397708460162416672701998639294621902395908857155973689670912922569526518216726075721818986257605197824"] by (simp add: round_half_even_def)

lemma round64_sample_1: "round64 (253 / 25932788704999172976413466298361279965724445751030708914477986497264512257149403820532424161746631575945844351365591526146819244477554789223586091867407121583694419985435065049822322554455693343721345233804320461909507208813788752010444492442548568156166288490645967348892718747576408136936373212045269552486300054327604019200000) = 0"
  using round64_eval [of "- 1083" "253 / 25932788704999172976413466298361279965724445751030708914477986497264512257149403820532424161746631575945844351365591526146819244477554789223586091867407121583694419985435065049822322554455693343721345233804320461909507208813788752010444492442548568156166288490645967348892718747576408136936373212045269552486300054327604019200000"] by (simp add: round_half_even_def)

lemma round64_sample_2: "round64 (23 / 1012011266536553091762476733594586535247783248820710591784506790137151697839976734459801918507185622475935389321584059556949043686928967384335066999703692549607587121382831806822334538710466081706198838392363725342810037417123463493090516778245797781704050282561793847761667073076152512660931637543230031316538538705467473920000) = 0"
  using round64_eval [of "- 1082" "23 / 1012011266536553091762476733594586535247783248820710591784506790137151697839976734459801918507185622475935389321584059556949043686928967384335066999703692549607587121382831806822334538710466081706198838392363725342810037417123463493090516778245797781704050282561793847761667073076152512660931637543230031316538538705467473920000"] by (simp add: round_half_even_def)

lemma round64_sample_3: "round64 (253 / 10120112665365530917624767335945865352477832488207105917845067901371516978399767344598019185071856224759353893215840595569490436869289673843350669997036925496075871213828318068223345387104660817061988383923637253428100374171234634930905167782457977817040502825617938477616670730761525126609316375432300313165385387054674739200000) = 0"
  using round64_eval [of "- 1082" "253 / 10120112665365530917624767335945865352477832488207105917845067901371516978399767344598019185071856224759353893215840595569490436869289673843350669997036925496075871213828318068223345387104660817061988383923637253428100374171234634930905167782457977817040502825617938477616670730761525126609316375432300313165385387054674739200000"] by (simp add: round_half_even_def)

lemma round64_sample_4: "round64 (1 / 36938411228584187849330400776202408536544088581955936600134497840006036971159150807782770025512275220371641710237818173828640094572907309528229945489184778060676929930473360949015210662932011982276257601321275975012566365725006417497803862405971619032197835313505475443300848167279566712124004770327896143053656662749562798080) = 0"
  using round64_eval [of "- 1082" "1 / 36938411228584187849330400776202408536544088581955936600134497840006036971159150807782770025512275220371641710237818173828640094572907309528229945489184778060676929930473360949015210662932011982276257601321275975012566365725006417497803862405971619032197835313505475443300848167279566712124004770327896143053656662749562798080"] by (simp add: round_half_even_def)

lemma round64_sample_5: "round64 (253 / 2403526758024313592935882242287143021213485215949187655488203626575735282369944744342029556454565853380346549638762141447753978756456297537795784124296269805318019413284225541203044529437356944052222241181863847689173838865668225796089977348333769731547119421084260388433959298555862217569712639165171324376779029425485250560000) = 0"
  using round64_eval [of "- 1080" "253 / 2403526758024313592935882242287143021213485215949187655488203626575735282369944744342029556454565853380346549638762141447753978756456297537795784124296269805318019413284225541203044529437356944052222241181863847689173838865668225796089977348333769731547119421084260388433959298555862217569712639165171324376779029425485250560000"] by (simp add: round_half_even_def)

lemma round64_sample_6: "round64 (253 / 1897521124756037047054643875489849753589593591538832359595950231507159433449956377112128597200973042142378854977970111669279456912991813845628250624444423530514225852592809637791877260082123903199122821985681985017768820157106494049544718959210870840695094279803363464553125762017785961239246820393556308718509760072751513600000) = 0"
  using round64_eval [of "- 1080" "253 / 1897521124756037047054643875489849753589593591538832359595950231507159433449956377112128597200973042142378854977970111669279456912991813845628250624444423530514225852592809637791877260082123903199122821985681985017768820157106494049544718959210870840695094279803363464553125762017785961239246820393556308718509760072751513600000"] by (simp add: round_half_even_def)

lemma round64_sample_7: "round64 (1 / 100000000000000000000000000000000000000000000000000000000000000000000000000000000000000000000000000000000000000000000000000000000000000000000000000000000000000000000000000000000000000000000000000000000000000000000000000000000000000000000000000000000000000000000000000000000000000000000000000000000000000000000000000000000000) = 1 / 101201126653655309176247673359458653524778324882071059178450679013715169783997673445980191850718562247593538932158405955694904368692896738433506699970369254960758712138283180682233453871046608170619883839236372534281003741712346349309051677824579778170405028256179384776166707307615251266093163754323003131653853870546747392"
  using round64_eval [of "- 1073" "1 / 100000000000000000000000000000000000000000000000000000000000000000000000000000000000000000000000000000000000000000000000000000000000000000000000000000000000000000000000000000000000000000000000000000000000000000000000000000000000000000000000000000000000000000000000000000000000000000000000000000000000000000000000000000000000"] by (simp add: round_half_even_def)

lemma round64_sample_8: "round64 (1 / 100000000000000000000000000000000000000000000000000000000000000000000000000000000000000000000000000000000000000000000000000000000000000000000000000000000000000000000000000000000000000000000000000000000000000000000000000000000000000000000000000000000000000000000000000000000000000000000000000000000000000000000000000000000) = 253 / 25300281663413827294061918339864663381194581220517764794612669753428792445999418361495047962679640561898384733039601488923726092173224184608376674992592313740189678034570795170558363467761652042654970959809093133570250935428086587327262919456144944542601257064044846194041676826903812816523290938580750782913463467636686848"
  using round64_eval [of "- 1064" "1 / 100000000000000000000000000000000000000000000000000000000000000000000000000000000000000000000000000000000000000000000000000000000000000000000000000000000000000000000000000000000000000000000000000000000000000000000000000000000000000000000000000000000000000000000000000000000000000000000000000000000000000000000000000000000"] by (simp add: round_half_even_def)

lemma round64_sample_9: "round64 (1 / 100000000000000000000000000000000000000000000000000000000000000000000000000000000000000000000000000000000000000000000000000000000000000000000000000000000000000000000000000000000000000000000000000000000) = 1723641332219371 / 172364133221937103085272756482216056112753534658909761028039668631756215232006744379020625060744018369805777923479247838020220755974022884986972234404720831691332769255536872593544438018353486799545737272878084128768"
  using round64_eval [of "- 665" "1 / 100000000000000000000000000000000000000000000000000000000000000000000000000000000000000000000000000000000000000000000000000000000000000000000000000000000000000000000000000000000000000000000000000000000"] by (simp add: round_half_even_def)

lemma round64_sample_10: "round64 (43091033305484275 / 43091033305484275771318189120554014028188383664727440257009917157939053808001686094755156265186004592451444480869811959505055188993505721246743058601180207922833192313884218148386109504588371699886434318219521032192) = 2693189581592767 / 2693189581592767235707386820034625876761773979045465016063119822371190863000105380922197266574125287028215280054363247469065949312094107577921441162573762995177074519617763634274131844036773231242902144888720064512"
  using round64_eval [of "- 658" "43091033305484275 / 43091033305484275771318189120554014028188383664727440257009917157939053808001686094755156265186004592451444480869811959505055188993505721246743058601180207922833192313884218148386109504588371699886434318219521032192"] by (simp add: round_half_even_def)

lemma round64_sample_11: "round64 (215455166527421375 / 10772758326371068942829547280138503507047095916181860064252479289484763452000421523688789066296501148112861120217452989876263797248376430311685764650295051980708298078471054537096527376147092924971608579554880258048) = 3366486976990959 / 168324348849547952231711676252164117297610873690341563503944988898199428937506586307637329160882830439263455003397702966816621832005881723620090072660860187198567157476110227142133240252298326952681384055545004032"
  using round64_eval [of "- 654" "215455166527421375 / 10772758326371068942829547280138503507047095916181860064252479289484763452000421523688789066296501148112861120217452989876263797248376430311685764650295051980708298078471054537096527376147092924971608579554880258048"] by (simp add: round_half_even_def)

lemma round64_sample_12: "round64 (1 / 20) = 3602879701896397 / 72057594037927936"
  using round64_eval [of "- 5" "1 / 20"] by (simp add: round_half_even_def)

lemma round64_sample_13: "round64 (1 / 16) = 1 / 16"
  using round64_eval [of "- 4" "1 / 16"] by (simp add: round_half_even_def)

lemma round64_sample_14: "round64 (3397 / 20000) = 3059745586835515 / 18014398509481984"
  using round64_eval [of "- 3" "3397 / 20000"] by (simp add: round_half_even_def)

lemma round64_sample_15: "round64 (1699 / 10000) = 3060646306760989 / 18014398509481984"
  using round64_eval [of "- 3" "1699 / 10000"] by (simp add: round_half_even_def)

lemma round64_sample_16: "round64 (497 / 2500) = 7162524847370037 / 36028797018963968"
  using round64_eval [of "- 3" "497 / 2500"] by (simp add: round_half_even_def)

lemma round64_sample_17: "round64 (16132529660161105330667730182425 / 81129638414606681695789005144064) = 1791070587415911 / 9007199254740992"
  using round64_eval [of "- 3" "16132529660161105330667730182425 / 81129638414606681695789005144064"] by (simp add: round_half_even_def)

lemma round64_sample_18: "round64 (10191 / 51250) = 7164282349663645 / 36028797018963968"
  using round64_eval [of "- 3" "10191 / 51250"] by (simp add: round_half_even_def)

lemma round64_sample_19: "round64 (13779869084720942679419726562867 / 40564819207303340847894502572032) = 6119491173671029 / 18014398509481984"
  using round64_eval [of "- 2" "13779869084720942679419726562867 / 40564819207303340847894502572032"] by (simp add: round_half_even_def)

lemma round64_sample_20: "round64 (3397 / 10000) = 3059745586835515 / 9007199254740992"
  using round64_eval [of "- 2" "3397 / 10000"] by (simp add: round_half_even_def)

lemma round64_sample_21: "round64 (7 / 19) = 6636883661388099 / 18014398509481984"
  using round64_eval [of "- 2" "7 / 19"] by (simp add: round_half_even_def)

lemma round64_sample_22: "round64 (37 / 100) = 3332663724254167 / 9007199254740992"
  using round64_eval [of "- 2" "37 / 100"] by (simp add: round_half_even_def)

lemma round64_sample_23: "round64 (41 / 100) = 7385903388887613 / 18014398509481984"
  using round64_eval [of "- 2" "41 / 100"] by (simp add: round_half_even_def)

lemma round64_sample_24: "round64 (17 / 41) = 7469384747833993 / 18014398509481984"
  using round64_eval [of "- 2" "17 / 41"] by (simp add: round_half_even_def)

lemma round64_sample_25: "round64 (1 / 2) = 1 / 2"
  using round64_eval [of "- 1" "1 / 2"] by (simp add: round_half_even_def)

lemma round64_sample_26: "round64 (313 / 625) = 4510805386774289 / 9007199254740992"
  using round64_eval [of "- 1" "313 / 625"] by (simp add: round_half_even_def)

lemma round64_sample_27: "round64 (3751 / 7490) = 1127703751820209 / 2251799813685248"
  using round64_eval [of "- 1" "3751 / 7490"] by (simp add: round_half_even_def)

lemma round64_sample_28: "round64 (7487 / 14950) = 4510829486304067 / 9007199254740992"
  using round64_eval [of "- 1" "7487 / 14950"] by (simp add: round_half_even_def)

lemma round64_sample_29: "round64 (13 / 20) = 5854679515581645 / 9007199254740992"
  using round64_eval [of "- 1" "13 / 20"] by (simp add: round_half_even_def)

lemma round64_sample_30: "round64 (2 / 3) = 6004799503160661 / 9007199254740992"
  using round64_eval [of "- 1" "2 / 3"] by (simp add: round_half_even_def)

lemma round64_sample_31: "round64 (500 / 749) = 751602073993741 / 1125899906842624"
  using round64_eval [of "- 1" "500 / 749"] by (simp add: round_half_even_def)

lemma round64_sample_32: "round64 (200 / 299) = 1506220611160701 / 2251799813685248"
  using round64_eval [of "- 1" "200 / 299"] by (simp add: round_half_even_def)

lemma round64_sample_33: "round64 (7 / 10) = 3152519739159347 / 4503599627370496"
  using round64_eval [of "- 1" "7 / 10"] by (simp add: round_half_even_def)

lemma round64_sample_34: "round64 (5 / 6) = 7505999378950827 / 9007199254740992"
  using round64_eval [of "- 1" "5 / 6"] by (simp add: round_half_even_def)

lemma round64_sample_35: "round64 (68454714336031539 / 72057594037927936) = 4278419646001971 / 4503599627370496"
  using round64_eval [of "- 1" "68454714336031539 / 72057594037927936"] by (simp add: round_half_even_def)

lemma round64_sample_36: "round64 (99 / 100) = 4458563631096791 / 4503599627370496"
  using round64_eval [of "- 1" "99 / 100"] by (simp add: round_half_even_def)

lemma round64_sample_37: "round64 (117 / 100) = 658651445502935 / 562949953421312"
  using round64_eval [of "0" "117 / 100"] by (simp add: round_half_even_def)

lemma round64_sample_38: "round64 (48 / 41) = 5272506880823995 / 4503599627370496"
  using round64_eval [of "0" "48 / 41"] by (simp add: round_half_even_def)

lemma round64_sample_39: "round64 (6 / 5) = 5404319552844595 / 4503599627370496"
  using round64_eval [of "0" "6 / 5"] by (simp add: round_half_even_def)

lemma round64_sample_40: "round64 (41 / 24) = 7693649363424597 / 4503599627370496"
  using round64_eval [of "0" "41 / 24"] by (simp add: round_half_even_def)

lemma round64_sample_41: "round64 (171 / 100) = 1925288840700887 / 1125899906842624"
  using round64_eval [of "0" "171 / 100"] by (simp add: round_half_even_def)

lemma round64_sample_42: "round64 (15 / 8) = 15 / 8"
  using round64_eval [of "0" "15 / 8"] by (simp add: round_half_even_def)

lemma round64_sample_43: "round64 (233 / 100) = 1311673391471657 / 562949953421312"
  using round64_eval [of "1" "233 / 100"] by (simp add: round_half_even_def)

lemma round64_sample_44: "round64 (7 / 3) = 5254199565265579 / 2251799813685248"
  using round64_eval [of "1" "7 / 3"] by (simp add: round_half_even_def)

lemma round64_sample_45: "round64 (100 / 39) = 5773845676116021 / 2251799813685248"
  using round64_eval [of "1" "100 / 39"] by (simp add: round_half_even_def)

lemma round64_sample_46: "round64 (13 / 5) = 5854679515581645 / 2251799813685248"
  using round64_eval [of "1" "13 / 5"] by (simp add: round_half_even_def)

lemma round64_sample_47: "round64 (30 / 11) = 6141272219141585 / 2251799813685248"
  using round64_eval [of "1" "30 / 11"] by (simp add: round_half_even_def)

lemma round64_sample_48: "round64 (273 / 100) = 6147413491360727 / 2251799813685248"
  using round64_eval [of "1" "273 / 100"] by (simp add: round_half_even_def)

lemma round64_sample_49: "round64 (147 / 50) = 6620291452234629 / 2251799813685248"
  using round64_eval [of "1" "147 / 50"] by (simp add: round_half_even_def)

lemma round64_sample_50: "round64 (50 / 17) = 827867578560753 / 281474976710656"
  using round64_eval [of "1" "50 / 17"] by (simp add: round_half_even_def)

lemma round64_sample_51: "round64 (299 / 100) = 1683220360729723 / 562949953421312"
  using round64_eval [of "1" "299 / 100"] by (simp add: round_half_even_def)

lemma round64_sample_52: "round64 (749 / 250) = 6746392241801003 / 2251799813685248"
  using round64_eval [of "1" "749 / 250"] by (simp add: round_half_even_def)

lemma round64_sample_53: "round64 (15 / 4) = 15 / 4"
  using round64_eval [of "1" "15 / 4"] by (simp add: round_half_even_def)

lemma round64_sample_54: "round64 (69 / 17) = 1142457258413839 / 281474976710656"
  using round64_eval [of "2" "69 / 17"] by (simp add: round_half_even_def)

lemma round64_sample_55: "round64 (203 / 50) = 4571153621781053 / 1125899906842624"
  using round64_eval [of "2" "203 / 50"] by (simp add: round_half_even_def)

lemma round64_sample_56: "round64 (10191 / 2500) = 573702297531659 / 140737488355328"
  using round64_eval [of "2" "10191 / 2500"] by (simp add: round_half_even_def)

lemma round64_sample_57: "round64 (90071992547409925 / 18014398509481984) = 5"
  using round64_eval [of "2" "90071992547409925 / 18014398509481984"] by (simp add: round_half_even_def)

lemma round64_sample_58: "round64 (105 / 17) = 6954087659910325 / 1125899906842624"
  using round64_eval [of "2" "105 / 17"] by (simp add: round_half_even_def)

lemma round64_sample_59: "round64 (309 / 50) = 869757678035927 / 140737488355328"
  using round64_eval [of "2" "309 / 50"] by (simp add: round_half_even_def)

lemma round64_sample_60: "round64 (25 / 4) = 25 / 4"
  using round64_eval [of "2" "25 / 4"] by (simp add: round_half_even_def)

lemma round64_sample_61: "round64 (379 / 50) = 4267160646933545 / 562949953421312"
  using round64_eval [of "2" "379 / 50"] by (simp add: round_half_even_def)

lemma round64_sample_62: "round64 (235 / 31) = 8535047680903763 / 1125899906842624"
  using round64_eval [of "2" "235 / 31"] by (simp add: round_half_even_def)

lemma round64_sample_63: "round64 (39 / 5) = 8782019273372467 / 1125899906842624"
  using round64_eval [of "2" "39 / 5"] by (simp add: round_half_even_def)

lemma round64_sample_64: "round64 (6333186975989760 / 573702297531659) = 6214490212922933 / 562949953421312"
  using round64_eval [of "3" "6333186975989760 / 573702297531659"] by (simp add: round_half_even_def)

lemma round64_sample_65: "round64 (276 / 25) = 1553741871442821 / 140737488355328"
  using round64_eval [of "3" "276 / 25"] by (simp add: round_half_even_def)

lemma round64_sample_66: "round64 (1263 / 100) = 7110057911711171 / 562949953421312"
  using round64_eval [of "3" "1263 / 100"] by (simp add: round_half_even_def)

lemma round64_sample_67: "round64 (240 / 19) = 3555473390029339 / 281474976710656"
  using round64_eval [of "3" "240 / 19"] by (simp add: round_half_even_def)

lemma round64_sample_68: "round64 (45 / 2) = 45 / 2"
  using round64_eval [of "4" "45 / 2"] by (simp add: round_half_even_def)

lemma round64_sample_69: "round64 (2583 / 100) = 1817624662109061 / 70368744177664"
  using round64_eval [of "4" "2583 / 100"] by (simp add: round_half_even_def)

lemma round64_sample_70: "round64 (155 / 6) = 7271436898358613 / 281474976710656"
  using round64_eval [of "4" "155 / 6"] by (simp add: round_half_even_def)

lemma round64_sample_71: "round64 (102738366499389440 / 3555473390029339) = 8133454014534997 / 281474976710656"
  using round64_eval [of "4" "102738366499389440 / 3555473390029339"] by (simp add: round_half_even_def)

lemma round64_sample_72: "round64 (289 / 10) = 4067313413468979 / 140737488355328"
  using round64_eval [of "4" "289 / 10"] by (simp add: round_half_even_def)

lemma round64_sample_73: "round64 (112770134669357225 / 2251799813685248) = 7048133416834827 / 140737488355328"
  using round64_eval [of "5" "112770134669357225 / 2251799813685248"] by (simp add: round_half_even_def)

lemma round64_sample_74: "round64 (28192593795505225 / 562949953421312) = 3524074224438153 / 70368744177664"
  using round64_eval [of "5" "28192593795505225 / 562949953421312"] by (simp add: round_half_even_def)

lemma round64_sample_75: "round64 (112770737157601675 / 2251799813685248) = 7048171072350105 / 140737488355328"
  using round64_eval [of "5" "112770737157601675 / 2251799813685248"] by (simp add: round_half_even_def)

lemma round64_sample_76: "round64 (187649984473770675 / 2251799813685248) = 2932031007402667 / 35184372088832"
  using round64_eval [of "6" "187649984473770675 / 2251799813685248"] by (simp add: round_half_even_def)

lemma round64_sample_77: "round64 (106960491150049275 / 1125899906842624) = 95"
  using round64_eval [of "6" "106960491150049275 / 1125899906842624"] by (simp add: round_half_even_def)

lemma round64_sample_78: "round64 (439100963668623375 / 4503599627370496) = 195 / 2"
  using round64_eval [of "6" "439100963668623375 / 4503599627370496"] by (simp add: round_half_even_def)

lemma round64_sample_79: "round64 (111464090777419775 / 1125899906842624) = 99"
  using round64_eval [of "6" "111464090777419775 / 1125899906842624"] by (simp add: round_half_even_def)

lemma round64_sample_80: "round64 (821906931995115520 / 5254199565265579) = 5503841062467291 / 35184372088832"
  using round64_eval [of "7" "821906931995115520 / 5254199565265579"] by (simp add: round_half_even_def)

lemma round64_sample_81: "round64 (15643 / 100) = 2751945662927995 / 17592186044416"
  using round64_eval [of "7" "15643 / 100"] by (simp add: round_half_even_def)

lemma round64_sample_82: "round64 (192414534860800000 / 421730487366137) = 1825 / 4"
  using round64_eval [of "8" "192414534860800000 / 421730487366137"] by (simp add: round_half_even_def)

lemma round64_sample_83: "round64 (1825 / 4) = 1825 / 4"
  using round64_eval [of "8" "1825 / 4"] by (simp add: round_half_even_def)

lemma round64_sample_84: "round64 (84000 / 73) = 1265191462098411 / 1099511627776"
  using round64_eval [of "10" "84000 / 73"] by (simp add: round_half_even_def)

lemma round64_sample_85: "round64 (540431955284459520 / 277144592453569) = 1950"
  using round64_eval [of "10" "540431955284459520 / 277144592453569"] by (simp add: round_half_even_def)

lemma round64_sample_86: "round64 (32318274979113206828488641840415510521141287748545580192757437868454290356001264571066367198889503444338583360652358969628791391745129290935057293950885155942124894235413163611289582128441278774914825735971451192551233 / 2693189581592767235707386820034625876761773979045465016063119822371190863000105380922197266574125287028215280054363247469065949312094107577921441162573762995177074519617763634274131844036773231242902144888720064512) = 12000"
  using round64_eval [of "13" "32318274979113206828488641840415510521141287748545580192757437868454290356001264571066367198889503444338583360652358969628791391745129290935057293950885155942124894235413163611289582128441278774914825735971451192551233 / 2693189581592767235707386820034625876761773979045465016063119822371190863000105380922197266574125287028215280054363247469065949312094107577921441162573762995177074519617763634274131844036773231242902144888720064512"] by (simp add: round_half_even_def)

lemma round64_sample_87: "round64 (2019892186194575426780540115025969407571330484284098762047339866778393147250079035691647949930593965271161460040772435601799461984070580683441080871930322246382805889713322725705598883027579923432176612033027025374959 / 168324348849547952231711676252164117297610873690341563503944988898199428937506586307637329160882830439263455003397702966816621832005881723620090072660860187198567157476110227142133240252298326952681384055545004032) = 12000"
  using round64_eval [of "13" "2019892186194575426780540115025969407571330484284098762047339866778393147250079035691647949930593965271161460040772435601799461984070580683441080871930322246382805889713322725705598883027579923432176612033027025374959 / 168324348849547952231711676252164117297610873690341563503944988898199428937506586307637329160882830439263455003397702966816621832005881723620090072660860187198567157476110227142133240252298326952681384055545004032"] by (simp add: round_half_even_def)

lemma round64_sample_88: "round64 (673297395398191808926846705008656469190443494761366254015779955592797715750026345230549316643531321757053820013590811867266487328023526894480360290643440748794268629904440908568532961009193307810725536222180016128000 / 1122162325663653) = 599999999999999981839873327506216995684701965273014175889450505702081090613324453205178030428237511208165074495843294449092814406209670907836310246283439267226141546400739890867090879837002773129330688"
  using round64_eval [of "666" "673297395398191808926846705008656469190443494761366254015779955592797715750026345230549316643531321757053820013590811867266487328023526894480360290643440748794268629904440908568532961009193307810725536222180016128000 / 1122162325663653"] by (simp add: round_half_even_def)

lemma round64_sample_89: "round64 (1897521124756037047054643875489849753589593591538832359595950231507159433449956377112128597200973042142378854977970111669279456912991813845628250624444423530514225852592809637791877260082123903199122821985681985017768820157106494049544718959210870840695094279803363464553125762017785961239246820393556308718509760072751513600000 / 253) = 7500083497059434724166008048324832125302351890894788629002142908663293799960507742498372016239690610635030261145366483810119692637282603996065494673063657679741935622979094276046331707226865486763475411687848252671574247588397271024588475230844425350470293493117762372966601132490511330819739990342031224723901907834064863232"
  using round64_eval [of "1079" "1897521124756037047054643875489849753589593591538832359595950231507159433449956377112128597200973042142378854977970111669279456912991813845628250624444423530514225852592809637791877260082123903199122821985681985017768820157106494049544718959210870840695094279803363464553125762017785961239246820393556308718509760072751513600000 / 253"] by (simp add: round_half_even_def)

lemma round64_sample_90: "round64 (5156703408637006279075700196031215690355079544365930820437954349143856476343601450439920675753364339326128776288131575472433852106746553306879333896990165386525460177006219471663205641999179919333936181028289362484288545658952608229042728243551462596672988214793620551269574570859535128263777159101528624573422123973709513359360 / 253) = 20382226911608720504761372503440047618402152016416006094087920348090624606593855122573474760543124781407650939777443891249799677235468120452574082213763491170680382797237064987336223424477166848207283485723722846711606827506058834518869411051342612282295721425902481956958099145137064995182786419559505957334068094054040600576"
  using round64_eval [of "1080" "5156703408637006279075700196031215690355079544365930820437954349143856476343601450439920675753364339326128776288131575472433852106746553306879333896990165386525460177006219471663205641999179919333936181028289362484288545658952608229042728243551462596672988214793620551269574570859535128263777159101528624573422123973709513359360 / 253"] by (simp add: round_half_even_def)

lemma round64_sample_91: "round64 (19734219697462785289368296305094437437331773352003856539797882407674458107879546321966137410890119638280740091770889161360506351895114863994533806494222004717347948866965220233035523504854088593270877348651092644184795729633907538115265077175793056743228980509954980031352507924984973996888166932092985610672501504756615741440000 / 253) = 78000868369418124582897302638224796943410425980233290288138085819326875169446838750450444434511274498607079306136503037131431296958491548607844705836661191731986798756885768524025403512576718367342760625478628921283564854951442380348213243376069347944022774712307682215182456921958244047512417918367677789967421370259378012160"
  using round64_eval [of "1082" "19734219697462785289368296305094437437331773352003856539797882407674458107879546321966137410890119638280740091770889161360506351895114863994533806494222004717347948866965220233035523504854088593270877348651092644184795729633907538115265077175793056743228980509954980031352507924984973996888166932092985610672501504756615741440000 / 253"] by (simp add: round_half_even_def)

lemma round64_sample_92: "round64 (56925633742681111411639316264695492607687807746164970787878506945214783003498691313363857916029191264271365649339103350078383707389754415368847518733332705915426775577784289133756317802463717095973684659570459550533064604713194821486341568776326125220852828394100903936593772860533578837177404611806689261555292802182545408000000 / 253) = 225002504911783067611761383467094035061065304088799822968932784029113461372746918988456476479329409429071642261046181555599989480599121622747691549467903369362288080773646738679966604397435844390423884930073000781391172527892748843431352514239987692757596722672655022711471572555142286476995614851340084638008368700910221656064"
  using round64_eval [of "1084" "56925633742681111411639316264695492607687807746164970787878506945214783003498691313363857916029191264271365649339103350078383707389754415368847518733332705915426775577784289133756317802463717095973684659570459550533064604713194821486341568776326125220852828394100903936593772860533578837177404611806689261555292802182545408000000 / 253"] by (simp add: round_half_even_def)

lemmas sample_roundings =
  round64_sample_0 round64_sample_1 round64_sample_2 round64_sample_3 round64_sample_4 round64_sample_5
  round64_sample_6 round64_sample_7 round64_sample_8 round64_sample_9 round64_sample_10 round64_sample_11
  round64_sample_12 round64_sample_13 round64_sample_14 round64_sample_15 round64_sample_16 round64_sample_17
  round64_sample_18 round64_sample_19 round64_sample_20 round64_sample_21 round64_sample_22 round64_sample_23
  round64_sample_24 round64_sample_25 round64_sample_26 round64_sample_27 round64_sample_28 round64_sample_29
  round64_sample_30 round64_sample_31 round64_sample_32 round64_sample_33 round64_sample_34 round64_sample_35
  round64_sample_36 round64_sample_37 round64_sample_38 round64_sample_39 round64_sample_40 round64_sample_41
  round64_sample_42 round64_sample_43 round64_sample_44 round64_sample_45 round64_sample_46 round64_sample_47
  round64_sample_48 round64_sample_49 round64_sample_50 round64_sample_51 round64_sample_52 round64_sample_53
  round64_sample_54 round64_sample_55 round64_sample_56 round64_sample_57 round64_sample_58 round64_sample_59
  round64_sample_60 round64_sample_61 round64_sample_62 round64_sample_63 round64_sample_64 round64_sample_65
  round64_sample_66 round64_sample_67 round64_sample_68 round64_sample_69 round64_sample_70 round64_sample_71
  round64_sample_72 round64_sample_73 round64_sample_74 round64_sample_75 round64_sample_76 round64_sample_77
  round64_sample_78 round64_sample_79 round64_sample_80 round64_sample_81 round64_sample_82 round64_sample_83
  round64_sample_84 round64_sample_85 round64_sample_86 round64_sample_87 round64_sample_88 round64_sample_89
  round64_sample_90 round64_sample_91 round64_sample_92

lemmas arithmetic_defs =
  py_add_def py_sub_def py_mul_def py_truediv_def int_truediv_def fadd_def fsub_def fmul_def
  fdiv_def float_of_real_def signed_zero_def round_half_even_def Let_def

lemmas marketing_defs =
  marketing_results_def cac_def lost_customers_def churn_rate_def retention_rate_def
  starting_rev_def nrr_def ltv_def ltv_cac_ratio_def payback_period_def
  marketing_efficiency_ratio_def marketing_spend_pct_def format_pct1_def show_nat.simps
  digit_char_def

lemmas financial_defs =
  financial_results_def Current_Assets_def Total_Assets_def Current_Liab_def NWC_def
  current_ratio_def quick_ratio_def cash_ratio_def interval_measure_def total_debt_ratio_def
  equity_multiplier_def ltd_ratio_def tie_def cash_coverage_def total_asset_turnover_def
  nwc_turnover_def fixed_asset_turnover_def gross_margin_def profit_margin_def roa_def roe_def
  dupont_roe_def market_cap_def pe_ratio_def market_to_book_def price_sales_def
  enterprise_value_def ev_ebitda_def inv_turnover_def days_sales_inv_def rec_turnover_def
  days_sales_rec_def

lemma financial_results_sample:
  "financial_results sample_inputs =
   Inr
     (Dict
       [(''Liquidity'', Dict
          [(''Current'', Num (PyFloat (round64 (618 / 100)))),
           (''Quick'', Num (PyFloat (round64 (406 / 100)))),
           (''Cash'', Num (PyFloat (round64 (294 / 100)))),
           (''Interval'', Num (PyFloat (round64 (45625 / 100))))]),
        (''Solvency'', Dict
          [(''Debt Ratio'', Num (PyFloat (round64 (41 / 100)))),
           (''Multiplier'', Num (PyFloat (round64 (171 / 100)))),
           (''LTD'', Num (PyFloat (round64 (37 / 100)))),
           (''TIE'', Num (PyFloat (round64 (2250 / 100)))),
           (''Cash Coverage'', Num (PyFloat (round64 (2583 / 100))))]),
        (''Turnover'', Dict
          [(''Total Asset'', Num (PyFloat (round64 (117 / 100)))),
           (''NWC'', Num (PyFloat (round64 (273 / 100)))),
           (''Fixed Asset'', Num (PyFloat 3))]),
        (''Profitability'', Dict
          [(''Gross Margin'', Num (PyFloat (round64 (6500 / 10000)))),
           (''Profit Margin'', Num (PyFloat (round64 (1699 / 10000)))),
           (''ROA'', Num (PyFloat (round64 (1988 / 10000)))),
           (''ROE'', Num (PyFloat (round64 (3397 / 10000))))]),
        (''DuPont_Breakdown'', Dict
          [(''Profitability_Lever'', Num (PyFloat (round64 (1699 / 10000)))),
           (''Efficiency_Lever'', Num (PyFloat (round64 (117 / 100)))),
           (''Leverage_Lever'', Num (PyFloat (round64 (171 / 100)))),
           (''Calculated_ROE'', Num (PyFloat (round64 (3397 / 10000))))]),
        (''Market'', Dict
          [(''P/E'', Num (PyFloat (round64 (1104 / 100)))),
           (''Market/Book'', Num (PyFloat (round64 (375 / 100)))),
           (''Price/Sales'', Num (PyFloat (round64 (18750 / 10000)))),
           (''EV'', Num (PyFloat 2350000)),
           (''EV_EBITDA'', Num (PyFloat (round64 (758 / 100))))]),
        (''Operational'', Dict
          [(''Inv_Turnover'', Num (PyFloat (round64 (233 / 100)))),
           (''DSI'', Num (PyFloat (round64 (15643 / 100)))),
           (''Rec_Turnover'', Num (PyFloat (round64 (1263 / 100)))),
           (''DSO'', Num (PyFloat (round64 (2890 / 100))))])])"
  by (simp add: sample_inputs_def financial_defs arithmetic_defs sample_roundings)

lemma marketing_results_sample:
  "marketing_results sample_inputs =
   Inr
     (Dict
       [(''Acquisition'', Dict
          [(''CAC'', Num (PyFloat 250)),
           (''Marketing_Spend_Pct'', Str ''6.2%''),
           (''Marketing_Efficiency_Ratio'', Num (PyFloat 16))]),
        (''Retention_and_Value'', Dict
          [(''Retention_Rate'', Str ''95.0%''),
           (''Churn_Rate'', Str ''5.0%''),
           (''Net_Revenue_Retention'', Str ''99.0%''),
           (''LTV'', Num (PyFloat 1950))]),
        (''Unit_Economics'', Dict
          [(''LTV_CAC_Ratio'', Num (PyFloat (round64 (780 / 100)))),
           (''Payback_Period_Months'', Num (PyFloat (round64 (26 / 10)))),
           (''Status'', Str ''Healthy'')])])"
  by (simp add: sample_inputs_def marketing_defs arithmetic_defs sample_roundings)

lemma financial_results_zero:
  "financial_results zero_inputs =
   Inr zero_financial_results"
  by (simp add: zero_inputs_def financial_defs zero_financial_results_def arithmetic_defs sample_roundings)

lemma marketing_results_zero:
  "marketing_results zero_inputs =
   Inr zero_marketing_results"
  by (simp add: zero_inputs_def marketing_defs zero_marketing_results_def arithmetic_defs sample_roundings)

lemma marketing_results_ratio_3:
  "marketing_results ratio_3_inputs =
   Inr
     (Dict
       [(''Acquisition'', Dict
          [(''CAC'', Num (PyFloat 10000)),
           (''Marketing_Spend_Pct'', Str ''83.3%''),
           (''Marketing_Efficiency_Ratio'', Num (PyFloat (round64 (120 / 100))))]),
        (''Retention_and_Value'', Dict
          [(''Retention_Rate'', Str ''50.0%''),
           (''Churn_Rate'', Str ''50.0%''),
           (''Net_Revenue_Retention'', Str ''50.1%''),
           (''LTV'', Num (PyFloat 30000))]),
        (''Unit_Economics'', Dict
          [(''LTV_CAC_Ratio'', Num (PyFloat 3)),
           (''Payback_Period_Months'', Num (PyFloat (round64 (7 / 10)))),
           (''Status'', Str ''Healthy'')])])"
  by (simp add: ratio_3_inputs_def sample_inputs_def marketing_defs arithmetic_defs sample_roundings)

lemma marketing_results_ratio_299:
  "marketing_results ratio_299_inputs =
   Inr
     (Dict
       [(''Acquisition'', Dict
          [(''CAC'', Num (PyFloat 10000)),
           (''Marketing_Spend_Pct'', Str ''83.3%''),
           (''Marketing_Efficiency_Ratio'', Num (PyFloat (round64 (120 / 100))))]),
        (''Retention_and_Value'', Dict
          [(''Retention_Rate'', Str ''50.0%''),
           (''Churn_Rate'', Str ''50.0%''),
           (''Net_Revenue_Retention'', Str ''50.1%''),
           (''LTV'', Num (PyFloat 29900))]),
        (''Unit_Economics'', Dict
          [(''LTV_CAC_Ratio'', Num (PyFloat (round64 (299 / 100)))),
           (''Payback_Period_Months'', Num (PyFloat (round64 (7 / 10)))),
           (''Status'', Str ''Needs Optimization'')])])"
  by (simp add: ratio_299_inputs_def ratio_3_inputs_def sample_inputs_def marketing_defs arithmetic_defs sample_roundings)

lemma marketing_results_ratio_2996:
  "marketing_results ratio_2996_inputs =
   Inr
     (Dict
       [(''Acquisition'', Dict
          [(''CAC'', Num (PyFloat 10000)),
           (''Marketing_Spend_Pct'', Str ''83.3%''),
           (''Marketing_Efficiency_Ratio'', Num (PyFloat (round64 (120 / 100))))]),
        (''Retention_and_Value'', Dict
          [(''Retention_Rate'', Str ''50.0%''),
           (''Churn_Rate'', Str ''50.0%''),
           (''Net_Revenue_Retention'', Str ''50.1%''),
           (''LTV'', Num (PyFloat 29960))]),
        (''Unit_Economics'', Dict
          [(''LTV_CAC_Ratio'', Num (PyFloat 3)),
           (''Payback_Period_Months'', Num (PyFloat (round64 (7 / 10)))),
           (''Status'', Str ''Needs Optimization'')])])"
  by (simp add: ratio_2996_inputs_def ratio_3_inputs_def sample_inputs_def marketing_defs arithmetic_defs sample_roundings)

lemma financial_results_no_revenue:
  "financial_results no_revenue_inputs =
   Inr
     (Dict
       [(''Liquidity'', Dict
          [(''Current'', Num (PyFloat (round64 (618 / 100)))),
           (''Quick'', Num (PyFloat (round64 (406 / 100)))),
           (''Cash'', Num (PyFloat (round64 (294 / 100)))),
           (''Interval'', Num (PyFloat (round64 (45625 / 100))))]),
        (''Solvency'', Dict
          [(''Debt Ratio'', Num (PyFloat (round64 (41 / 100)))),
           (''Multiplier'', Num (PyFloat (round64 (171 / 100)))),
           (''LTD'', Num (PyFloat (round64 (37 / 100)))),
           (''TIE'', Num (PyFloat (round64 (2250 / 100)))),
           (''Cash Coverage'', Num (PyFloat (round64 (2583 / 100))))]),
        (''Turnover'', Dict
          [(''Total Asset'', Num (PyFloat 0)),
           (''NWC'', Num (PyFloat 0)),
           (''Fixed Asset'', Num (PyFloat 0))]),
        (''Profitability'', Dict
          [(''Gross Margin'', Num (PyInt 0)),
           (''Profit Margin'', Num (PyInt 0)),
           (''ROA'', Num (PyFloat (round64 (1988 / 10000)))),
           (''ROE'', Num (PyFloat (round64 (3397 / 10000))))]),
        (''DuPont_Breakdown'', Dict
          [(''Profitability_Lever'', Num (PyInt 0)),
           (''Efficiency_Lever'', Num (PyFloat 0)),
           (''Leverage_Lever'', Num (PyFloat (round64 (171 / 100)))),
           (''Calculated_ROE'', Num (PyFloat 0))]),
        (''Market'', Dict
          [(''P/E'', Num (PyFloat (round64 (1104 / 100)))),
           (''Market/Book'', Num (PyFloat (round64 (375 / 100)))),
           (''Price/Sales'', Num (PyInt 0)),
           (''EV'', Num (PyFloat 2350000)),
           (''EV_EBITDA'', Num (PyFloat (round64 (758 / 100))))]),
        (''Operational'', Dict
          [(''Inv_Turnover'', Num (PyFloat (round64 (233 / 100)))),
           (''DSI'', Num (PyFloat (round64 (15643 / 100)))),
           (''Rec_Turnover'', Num (PyFloat 0)),
           (''DSO'', Num (PyInt 0))])])"
  by (simp add: no_revenue_inputs_def sample_inputs_def financial_defs arithmetic_defs sample_roundings)

lemma financial_results_tiny_cogs:
  "financial_results tiny_cogs_inputs = Inl ZeroDivisionError"
  by (simp add: tiny_cogs_inputs_def sample_inputs_def financial_defs arithmetic_defs sample_roundings)

lemma marketing_results_tiny_margin:
  "marketing_results tiny_margin_inputs = Inl ZeroDivisionError"
  by (simp add: tiny_margin_inputs_def sample_inputs_def marketing_defs arithmetic_defs sample_roundings)

lemma financial_results_tiny_revenue:
  "financial_results tiny_revenue_inputs =
   Inr
     (Dict
       [(''Liquidity'', Dict
          [(''Current'', Num (PyFloat (round64 (618 / 100)))),
           (''Quick'', Num (PyFloat (round64 (406 / 100)))),
           (''Cash'', Num (PyFloat (round64 (294 / 100)))),
           (''Interval'', Num (PyFloat (round64 (45625 / 100))))]),
        (''Solvency'', Dict
          [(''Debt Ratio'', Num (PyFloat (round64 (41 / 100)))),
           (''Multiplier'', Num (PyFloat (round64 (171 / 100)))),
           (''LTD'', Num (PyFloat (round64 (37 / 100)))),
           (''TIE'', Num (PyFloat (round64 (2250 / 100)))),
           (''Cash Coverage'', Num (PyFloat (round64 (2583 / 100))))]),
        (''Turnover'', Dict
          [(''Total Asset'', Num (PyFloat 0)),
           (''NWC'', Num (PyFloat 0)),
           (''Fixed Asset'', Num (PyFloat 0))]),
        (''Profitability'', Dict
          [(''Gross Margin'', Num (PyInf False)),
           (''Profit Margin'', Num (PyInf False)),
           (''ROA'', Num (PyFloat (round64 (1988 / 10000)))),
           (''ROE'', Num (PyFloat (round64 (3397 / 10000))))]),
        (''DuPont_Breakdown'', Dict
          [(''Profitability_Lever'', Num (PyInf False)),
           (''Efficiency_Lever'', Num (PyFloat 0)),
           (''Leverage_Lever'', Num (PyFloat (round64 (171 / 100)))),
           (''Calculated_ROE'', Num (PyNaN))]),
        (''Market'', Dict
          [(''P/E'', Num (PyFloat (round64 (1104 / 100)))),
           (''Market/Book'', Num (PyFloat (round64 (375 / 100)))),
           (''Price/Sales'', Num (PyInf False)),
           (''EV'', Num (PyFloat 2350000)),
           (''EV_EBITDA'', Num (PyFloat (round64 (758 / 100))))]),
        (''Operational'', Dict
          [(''Inv_Turnover'', Num (PyFloat (round64 (233 / 100)))),
           (''DSI'', Num (PyFloat (round64 (15643 / 100)))),
           (''Rec_Turnover'', Num (PyFloat 0)),
           (''DSO'', Num (PyInt 0))])])"
  by (simp add: tiny_revenue_inputs_def sample_inputs_def financial_defs arithmetic_defs sample_roundings)

lemma marketing_results_tiny_revenue:
  "marketing_results tiny_revenue_inputs =
   Inr
     (Dict
       [(''Acquisition'', Dict
          [(''CAC'', Num (PyFloat 250)),
           (''Marketing_Spend_Pct'', Str ''inf%''),
           (''Marketing_Efficiency_Ratio'', Num (PyFloat 0))]),
        (''Retention_and_Value'', Dict
          [(''Retention_Rate'', Str ''95.0%''),
           (''Churn_Rate'', Str ''5.0%''),
           (''Net_Revenue_Retention'', Str ''99.0%''),
           (''LTV'', Num (PyFloat 1950))]),
        (''Unit_Economics'', Dict
          [(''LTV_CAC_Ratio'', Num (PyFloat (round64 (780 / 100)))),
           (''Payback_Period_Months'', Num (PyFloat (round64 (26 / 10)))),
           (''Status'', Str ''Healthy'')])])"
  by (simp add: tiny_revenue_inputs_def sample_inputs_def marketing_defs arithmetic_defs sample_roundings)

lemma financial_results_payables:
  "financial_results payables_inputs =
   Inr
     (Dict
       [(''Liquidity'', Dict
          [(''Current'', Num (PyFloat 0)),
           (''Quick'', Num (PyFloat 0)),
           (''Cash'', Num (PyFloat 0)),
           (''Interval'', Num (PyInt 0))]),
        (''Solvency'', Dict
          [(''Debt Ratio'', Num (PyInt 0)),
           (''Multiplier'', Num (PyInt 0)),
           (''LTD'', Num (PyInt 0)),
           (''TIE'', Num (PyInt 0)),
           (''Cash Coverage'', Num (PyInt 0))]),
        (''Turnover'', Dict
          [(''Total Asset'', Num (PyInt 0)),
           (''NWC'', Num (PyNegZero)),
           (''Fixed Asset'', Num (PyInt 0))]),
        (''Profitability'', Dict
          [(''Gross Margin'', Num (PyInt 0)),
           (''Profit Margin'', Num (PyInt 0)),
           (''ROA'', Num (PyInt 0)),
           (''ROE'', Num (PyInt 0))]),
        (''DuPont_Breakdown'', Dict
          [(''Profitability_Lever'', Num (PyInt 0)),
           (''Efficiency_Lever'', Num (PyInt 0)),
           (''Leverage_Lever'', Num (PyInt 0)),
           (''Calculated_ROE'', Num (PyInt 0))]),
        (''Market'', Dict
          [(''P/E'', Num (PyInt 0)),
           (''Market/Book'', Num (PyInt 0)),
           (''Price/Sales'', Num (PyInt 0)),
           (''EV'', Num (PyInt 0)),
           (''EV_EBITDA'', Num (PyInt 0))]),
        (''Operational'', Dict
          [(''Inv_Turnover'', Num (PyInt 0)),
           (''DSI'', Num (PyInt 0)),
           (''Rec_Turnover'', Num (PyInt 0)),
           (''DSO'', Num (PyInt 0))])])"
  by (simp add: payables_inputs_def zero_inputs_def financial_defs arithmetic_defs sample_roundings)

section \<open>Claims about the marketing report\<close>



section \<open>Claims about the prompts and the orchestration\<close>

text \<open>
  C5. In \<^verbatim>\<open>analyze_business\<close>, when the first call of the provider (the financial prompt)
  returns and the second (the marketing prompt) raises, the result is that error, unchanged;
  nothing else is returned, so the financial metrics and report computed before are lost; and
  exactly two prompts were handed to the provider, the financial and the marketing one: the
  CEO prompt was never sent.
\<close>

theorem analyze_business_second_call_fails:
  assumes "financial_results i = Inr financial_metrics"
    and "marketing_results i = Inr marketing_metrics"
    and "gen (prompt_financial fr financial_metrics) (provider w) = (Inr financial_report, p1)"
    and "gen (prompt_marketing fr marketing_metrics) p1 = (Inl e, p2)"
  shows "analyze_business fr gen i w =
           (Inl e, \<lparr>calls = calls w @ [prompt_financial fr financial_metrics,
                                       prompt_marketing fr marketing_metrics],
                    provider = p2\<rparr>)"
  by (simp add: analyze_business_def financial_analysis_def analyze_marketing_performance_def
      construct_prompt_financial_def construct_prompt_marketing_def call_llm_def assms)

theorem analyze_business_second_call_fails_witness:
  "\<not> isl (financial_results sample_inputs) \<and> \<not> isl (marketing_results sample_inputs) \<and>
   fails_on_second_call
     (prompt_financial decimal_repr (projr (financial_results sample_inputs))) 0 =
     (Inr ''narrative'', 1) \<and>
   fails_on_second_call
     (prompt_marketing decimal_repr (projr (marketing_results sample_inputs))) 1 =
     (Inl (GenerationError ''quota exceeded''), 2) \<and>
   analyze_business decimal_repr fails_on_second_call sample_inputs (new_world 0) =
     (Inl (GenerationError ''quota exceeded''),
      \<lparr>calls = [prompt_financial decimal_repr (projr (financial_results sample_inputs)),
                prompt_marketing decimal_repr (projr (marketing_results sample_inputs))],
       provider = 2\<rparr>)"
proof -
  have a: "financial_results sample_inputs = Inr (projr (financial_results sample_inputs))"
    by (rule Inr_projr) (simp add: financial_results_sample)
  have b: "marketing_results sample_inputs = Inr (projr (marketing_results sample_inputs))"
    by (rule Inr_projr) (simp add: marketing_results_sample)
  have c: "fails_on_second_call
     (prompt_financial decimal_repr (projr (financial_results sample_inputs)))
     (provider (new_world 0)) = (Inr ''narrative'', 1)"
    by (simp add: fails_on_second_call_def new_world_def)
  have d: "fails_on_second_call
     (prompt_marketing decimal_repr (projr (marketing_results sample_inputs))) 1 =
     (Inl (GenerationError ''quota exceeded''), 2)"
    by (simp add: fails_on_second_call_def)
  have n: "\<not> isl (financial_results sample_inputs)" "\<not> isl (marketing_results sample_inputs)"
    by (subst a, simp) (subst b, simp)
  show ?thesis
    using analyze_business_second_call_fails [OF a b c d] c d n
    by (simp add: new_world_def)
qed

text \<open>
  C6, as the code has it. \<^verbatim>\<open>construct_prompt_financial\<close> builds the prompt, which is the
  fixed CFO template followed by \<^verbatim>\<open>json.dumps(results, indent=2)\<close>, hands exactly that
  prompt to \<^verbatim>\<open>call_llm\<close> once, and returns what \<^verbatim>\<open>call_llm\<close> returns: the text of the
  provider or its error, not the prompt. The report is only read: the metrics that
  \<^verbatim>\<open>financial_analysis\<close> returns are the dict that was computed and serialised.
\<close>

theorem construct_prompt_financial_returns_reply:
  "construct_prompt_financial fr gen results w =
     (fst (gen (template_financial @ json_dumps fr results) (provider w)),
      \<lparr>calls = calls w @ [template_financial @ json_dumps fr results],
       provider = snd (gen (template_financial @ json_dumps fr results) (provider w))\<rparr>) \<and>
   (\<forall>metrics ai_report w'.
      financial_analysis fr gen i w = (Inr (metrics, ai_report), w') \<longrightarrow>
        financial_results i = Inr metrics \<and>
        fst (gen (template_financial @ json_dumps fr metrics) (provider w)) = Inr ai_report \<and>
        calls w' = calls w @ [template_financial @ json_dumps fr metrics])"
proof (rule conjI)
  show "construct_prompt_financial fr gen results w =
     (fst (gen (template_financial @ json_dumps fr results) (provider w)),
      \<lparr>calls = calls w @ [template_financial @ json_dumps fr results],
       provider = snd (gen (template_financial @ json_dumps fr results) (provider w))\<rparr>)"
    by (simp add: construct_prompt_financial_def call_llm_def prompt_financial_def
        split: prod.split)
next
  show "\<forall>metrics ai_report w'.
      financial_analysis fr gen i w = (Inr (metrics, ai_report), w') \<longrightarrow>
        financial_results i = Inr metrics \<and>
        fst (gen (template_financial @ json_dumps fr metrics) (provider w)) = Inr ai_report \<and>
        calls w' = calls w @ [template_financial @ json_dumps fr metrics]"
  proof (intro allI impI)
    fix metrics ai_report w'
    assume a: "financial_analysis fr gen i w = (Inr (metrics, ai_report), w')"
    obtain r where r: "financial_results i = Inr r"
      using a by (cases "financial_results i") (simp_all add: financial_analysis_def)
    obtain x p where g: "gen (template_financial @ json_dumps fr r) (provider w) = (x, p)"
      by (cases "gen (template_financial @ json_dumps fr r) (provider w)")
    from a have "x = Inr ai_report \<and> r = metrics \<and>
        w' = \<lparr>calls = calls w @ [template_financial @ json_dumps fr r], provider = p\<rparr>"
      by (cases x)
        (auto simp add: financial_analysis_def construct_prompt_financial_def call_llm_def
          prompt_financial_def r g)
    then show "financial_results i = Inr metrics \<and>
        fst (gen (template_financial @ json_dumps fr metrics) (provider w)) = Inr ai_report \<and>
        calls w' = calls w @ [template_financial @ json_dumps fr metrics]"
      using r g by auto
  qed
qed

theorem construct_prompt_financial_returns_reply_witness:
  "financial_analysis decimal_repr canned_provider zero_inputs (new_world ()) =
     (Inr (zero_financial_results, ''narrative''),
      \<lparr>calls = [template_financial @ json_dumps decimal_repr zero_financial_results],
       provider = ()\<rparr>) \<and>
   financial_results zero_inputs = Inr zero_financial_results \<and>
   fst (canned_provider (template_financial @ json_dumps decimal_repr zero_financial_results) ())
     = Inr ''narrative''"
proof -
  have a: "financial_analysis decimal_repr canned_provider zero_inputs (new_world ()) =
     (Inr (zero_financial_results, ''narrative''),
      \<lparr>calls = [template_financial @ json_dumps decimal_repr zero_financial_results],
       provider = ()\<rparr>)"
    by (simp add: financial_analysis_def construct_prompt_financial_def call_llm_def
        prompt_financial_def financial_results_zero canned_provider_def new_world_def)
  show ?thesis
    using construct_prompt_financial_returns_reply
      [of decimal_repr canned_provider zero_financial_results "new_world ()" zero_inputs] a
    by (simp add: new_world_def)
qed

text \<open>
  The value returned is the provider's text, which differs from the prompt that was built.
\<close>

theorem construct_prompt_financial_counterexample:
  "construct_prompt_financial decimal_repr canned_provider zero_financial_results (new_world ()) =
     (Inr ''narrative'',
      \<lparr>calls = [prompt_financial decimal_repr zero_financial_results], provider = ()\<rparr>) \<and>
   prompt_financial decimal_repr zero_financial_results \<noteq> ''narrative''"
  by (simp add: construct_prompt_financial_def call_llm_def canned_provider_def new_world_def
      prompt_financial_def template_financial_def)


end
